theory Spec2Isabelle
  imports Complex_Main "HOL-Library.Word" "HOL-Library.AList" "HOL-Library.Char_ord"
    "HOL-Library.List_Lexorder"
begin

section \<open>Types and values as the reflection API of controller.go sees them\<close>

text \<open>
  controller.go works on Go values through package reflect. A Go type is modelled by
  \<open>rtype\<close>: the text \<open>t.String()\<close> prints for it (the name of a named type such as
  \<open>config.Duration\<close>, empty for an unnamed composite type, whose printed form starts
  with a bracket, a star or a keyword and so never equals one of the names the code
  compares with), and its shape, from which \<open>t.Kind()\<close> follows. Type declarations are
  finite trees here: a type that contains itself cannot be written.
\<close>

datatype kind =
    KInvalid | KBool
  | KInt | KInt8 | KInt16 | KInt32 | KInt64
  | KUint | KUint8 | KUint16 | KUint32 | KUint64 | KUintptr
  | KFloat32 | KFloat64 | KComplex64 | KComplex128
  | KArray | KChan | KFunc | KInterface | KMap | KPtr | KSlice | KString | KStruct
  | KUnsafePointer

datatype rtype =
    Basic string kind
  | PtrT string rtype
  | SliceT string rtype
  | ArrayT string nat rtype
  | ChanT string rtype
  | MapT string rtype rtype
  | FuncT string
  | InterfaceT string nat
  | StructT string "sfield list"
and sfield =
    StructField (Name: string) (Type: rtype) (Tag: "(string \<times> string) list") (Anonymous: bool)

text \<open>
  \<open>Basic n k\<close> is a type of a kind without components (booleans, numbers, strings);
  \<open>InterfaceT n k\<close> is an interface type with \<open>k\<close> methods, \<open>interface{}\<close> has none.
  A struct tag is kept as its list of key and value pairs. Field names are ASCII.
\<close>

fun Kind :: "rtype \<Rightarrow> kind" where
  "Kind (Basic n k) = k"
| "Kind (PtrT n t) = KPtr"
| "Kind (SliceT n t) = KSlice"
| "Kind (ArrayT n l t) = KArray"
| "Kind (ChanT n t) = KChan"
| "Kind (MapT n k t) = KMap"
| "Kind (FuncT n) = KFunc"
| "Kind (InterfaceT n k) = KInterface"
| "Kind (StructT n fs) = KStruct"

fun type_String :: "rtype \<Rightarrow> string" where
  "type_String (Basic n k) = n"
| "type_String (PtrT n t) = (if n = [] then CHR ''*'' # type_String t else n)"
| "type_String (SliceT n t) = (if n = [] then ''[]'' @ type_String t else n)"
| "type_String (ArrayT n l t) = (if n = [] then ''[...]'' @ type_String t else n)"
| "type_String (ChanT n t) = (if n = [] then ''chan '' @ type_String t else n)"
| "type_String (MapT n k t) = (if n = [] then ''map['' @ type_String k @ '']'' @ type_String t else n)"
| "type_String (FuncT n) = (if n = [] then ''func()'' else n)"
| "type_String (InterfaceT n k) = (if n = [] then ''interface {}'' else n)"
| "type_String (StructT n fs) = (if n = [] then ''struct {}'' else n)"

text \<open>\<open>t.Elem()\<close> panics unless the type is an array, channel, map, pointer or slice.\<close>

datatype error =
    Panic string
  | Errorf string "string list" "error option"

fun Elem :: "rtype \<Rightarrow> error + rtype" where
  "Elem (PtrT n t) = Inr t"
| "Elem (SliceT n t) = Inr t"
| "Elem (ArrayT n l t) = Inr t"
| "Elem (ChanT n t) = Inr t"
| "Elem (MapT n k t) = Inr t"
| "Elem t = Inl (Panic ''reflect: Elem of invalid type'')"

fun kind_String :: "kind \<Rightarrow> string" where
  "kind_String KInvalid = ''invalid''" | "kind_String KBool = ''bool''"
| "kind_String KInt = ''int''" | "kind_String KInt8 = ''int8''"
| "kind_String KInt16 = ''int16''" | "kind_String KInt32 = ''int32''"
| "kind_String KInt64 = ''int64''" | "kind_String KUint = ''uint''"
| "kind_String KUint8 = ''uint8''" | "kind_String KUint16 = ''uint16''"
| "kind_String KUint32 = ''uint32''" | "kind_String KUint64 = ''uint64''"
| "kind_String KUintptr = ''uintptr''" | "kind_String KFloat32 = ''float32''"
| "kind_String KFloat64 = ''float64''" | "kind_String KComplex64 = ''complex64''"
| "kind_String KComplex128 = ''complex128''" | "kind_String KArray = ''array''"
| "kind_String KChan = ''chan''" | "kind_String KFunc = ''func''"
| "kind_String KInterface = ''interface''" | "kind_String KMap = ''map''"
| "kind_String KPtr = ''ptr''" | "kind_String KSlice = ''slice''"
| "kind_String KString = ''string''" | "kind_String KStruct = ''struct''"
| "kind_String KUnsafePointer = ''unsafe.Pointer''"

definition isIntKind :: "kind \<Rightarrow> bool" where
  "isIntKind k = (k \<in> {KInt, KInt8, KInt16, KInt32, KInt64})"

definition isUintKind :: "kind \<Rightarrow> bool" where
  "isUintKind k = (k \<in> {KUint, KUint8, KUint16, KUint32, KUint64})"

definition isFloatKind :: "kind \<Rightarrow> bool" where
  "isFloatKind k = (k \<in> {KFloat32, KFloat64})"

section \<open>FieldType and the translation of types to field types\<close>

datatype FieldType =
    FieldTypeUnknown | FieldTypeString | FieldTypeInteger | FieldTypeDuration
  | FieldTypeSize | FieldTypeFloat | FieldTypeBool | FieldTypeInterface
  | FieldTypeSlice | FieldTypeFieldConfig | FieldTypeMap

definition deref :: "rtype \<Rightarrow> rtype" where
  "deref t = (case t of PtrT n e \<Rightarrow> e | _ \<Rightarrow> t)"

definition getFieldType :: "rtype \<Rightarrow> FieldType" where
  "getFieldType t0 =
     (let t = deref t0 in
      case Kind t of
        KString \<Rightarrow> FieldTypeString
      | KInt \<Rightarrow> FieldTypeInteger | KInt8 \<Rightarrow> FieldTypeInteger | KInt16 \<Rightarrow> FieldTypeInteger
      | KInt32 \<Rightarrow> FieldTypeInteger | KInt64 \<Rightarrow> FieldTypeInteger
      | KUint \<Rightarrow> FieldTypeInteger | KUint8 \<Rightarrow> FieldTypeInteger | KUint16 \<Rightarrow> FieldTypeInteger
      | KUint32 \<Rightarrow> FieldTypeInteger | KUint64 \<Rightarrow> FieldTypeInteger
      | KFloat32 \<Rightarrow> FieldTypeFloat | KFloat64 \<Rightarrow> FieldTypeFloat
      | KBool \<Rightarrow> FieldTypeBool
      | KSlice \<Rightarrow> FieldTypeSlice
      | KMap \<Rightarrow> FieldTypeMap
      | KStruct \<Rightarrow>
          (if type_String t = ''internal.Duration'' \<or> type_String t = ''config.Duration''
             then FieldTypeDuration
           else if type_String t = ''internal.Size'' \<or> type_String t = ''config.Size''
             then FieldTypeSize
           else FieldTypeFieldConfig)
      | _ \<Rightarrow> FieldTypeUnknown)"

definition getFieldTypeFromStructField :: "sfield \<Rightarrow> error + FieldType" where
  "getFieldTypeFromStructField structField =
     (let fieldName = Name structField; ft = Type structField; result = getFieldType ft in
      if result = FieldTypeUnknown
        then Inl (Panic (''unknown type, name: '' @ fieldName @ '', string: '' @ type_String ft))
      else Inr result)"

definition isInternalStructFieldType :: "rtype \<Rightarrow> bool" where
  "isInternalStructFieldType t =
     (type_String t = ''internal.Duration'' \<or> type_String t = ''config.Duration''
      \<or> type_String t = ''internal.Size'' \<or> type_String t = ''config.Size'')"

definition hasSubType :: "rtype \<Rightarrow> bool" where
  "hasSubType t0 =
     (let t = deref t0 in
      case Kind t of
        KSlice \<Rightarrow> True
      | KMap \<Rightarrow> True
      | KStruct \<Rightarrow> \<not> (type_String t = ''internal.Duration'' \<or> type_String t = ''config.Duration''
                     \<or> type_String t = ''internal.Size'' \<or> type_String t = ''config.Size'')
      | _ \<Rightarrow> False)"

definition getSubTypeType :: "rtype \<Rightarrow> error + rtype" where
  "getSubTypeType typ0 =
     (let typ = deref typ0 in
      case typ of
        SliceT n t \<Rightarrow> Inr (deref t)
      | MapT n k t \<Rightarrow> Inr (deref t)
      | StructT n fs \<Rightarrow> Inr typ
      | _ \<Rightarrow> Inl (Panic (type_String typ @
            '' is not a type that has subtype information (map, slice, struct)'')))"


section \<open>Values\<close>

text \<open>
  A Go value, without its type. A slice or a map is \<open>None\<close> when nil; a pointer holds its
  target or is nil; a value of interface type holds a value with its dynamic type or is
  nil. Map keys are strings, the only keys controller.go reads or writes. A float is
  modelled by a real number.
\<close>

datatype gval =
    GBool bool
  | GInt int
  | GUint nat
  | GFloat real
  | GString string
  | GSlice "gval list option"
  | GArray "gval list"
  | GMap "(string \<times> gval) list option"
  | GStruct "gval list"
  | GPtr "gval option"
  | GIface "(rtype \<times> gval) option"
  | GFunc bool
  | GChan bool

text \<open>
  A \<open>reflect.Value\<close>: the zero Value, or a typed value with the two flags that decide
  \<open>CanAddr\<close> and \<open>CanSet\<close>. A Value reached through an unexported field is
  read-only: \<open>StickyRO\<close> through a plain field, which its own fields inherit,
  \<open>EmbedRO\<close> through an embedded one, which they do not.
\<close>

datatype roflag = RW | StickyRO | EmbedRO

datatype Value = ZeroValue | Val (vtyp: rtype) (vval: gval) (canAddr: bool) (flagRO: roflag)

fun IsValid :: "Value \<Rightarrow> bool" where
  "IsValid ZeroValue = False"
| "IsValid (Val t v a r) = True"

fun CanSet :: "Value \<Rightarrow> bool" where
  "CanSet ZeroValue = False"
| "CanSet (Val t v a r) = (a \<and> r = RW)"

fun ValueKind :: "Value \<Rightarrow> kind" where
  "ValueKind ZeroValue = KInvalid"
| "ValueKind (Val t v a r) = Kind t"

text \<open>\<open>reflect.ValueOf(i)\<close> of an \<open>interface{}\<close>: the zero Value for nil.\<close>

fun ValueOf :: "(rtype \<times> gval) option \<Rightarrow> Value" where
  "ValueOf None = ZeroValue"
| "ValueOf (Some (t, v)) = Val t v False RW"

fun isZero :: "gval \<Rightarrow> bool" where
  "isZero (GBool b) = (\<not> b)"
| "isZero (GInt i) = (i = 0)"
| "isZero (GUint n) = (n = 0)"
| "isZero (GFloat x) = (x = 0)"
| "isZero (GString s) = (s = [])"
| "isZero (GSlice xs) = (xs = None)"
| "isZero (GArray xs) = list_all isZero xs"
| "isZero (GMap m) = (m = None)"
| "isZero (GStruct fs) = list_all isZero fs"
| "isZero (GPtr p) = (p = None)"
| "isZero (GIface i) = (i = None)"
| "isZero (GFunc nonnil) = (\<not> nonnil)"
| "isZero (GChan nonnil) = (\<not> nonnil)"

text \<open>\<open>v.IsZero()\<close> panics on the zero Value.\<close>

fun IsZero :: "Value \<Rightarrow> error + bool" where
  "IsZero ZeroValue = Inl (Panic ''reflect: call of reflect.Value.IsZero on zero Value'')"
| "IsZero (Val t v a r) = Inr (isZero v)"

text \<open>The zero value of a type, as \<open>reflect.New\<close> and \<open>reflect.Zero\<close> make it.\<close>

fun zero :: "rtype \<Rightarrow> gval" and zeros :: "sfield list \<Rightarrow> gval list" where
  "zero (Basic n k) =
     (if k = KBool then GBool False
      else if k = KString then GString []
      else if k \<in> {KInt, KInt8, KInt16, KInt32, KInt64} then GInt 0
      else if k \<in> {KFloat32, KFloat64} then GFloat 0
      else GUint 0)"
| "zero (PtrT n t) = GPtr None"
| "zero (SliceT n t) = GSlice None"
| "zero (ArrayT n l t) = GArray (replicate l (zero t))"
| "zero (ChanT n t) = GChan False"
| "zero (MapT n k t) = GMap None"
| "zero (FuncT n) = GFunc False"
| "zero (InterfaceT n k) = GIface None"
| "zero (StructT n fs) = GStruct (zeros fs)"
| "zeros [] = []"
| "zeros (StructField nm t tg an # fs) = zero t # zeros fs"


section \<open>Struct tags and letter case\<close>

definition Tag_Lookup :: "(string \<times> string) list \<Rightarrow> string \<Rightarrow> string option" where
  "Tag_Lookup tag key = map_of tag key"

definition Tag_Get :: "(string \<times> string) list \<Rightarrow> string \<Rightarrow> string" where
  "Tag_Get tag key = (case map_of tag key of None \<Rightarrow> [] | Some v \<Rightarrow> v)"

definition isUpper :: "char \<Rightarrow> bool" where
  "isUpper c = (65 \<le> (of_char c :: nat) \<and> (of_char c :: nat) \<le> 90)"

definition isLower :: "char \<Rightarrow> bool" where
  "isLower c = (97 \<le> (of_char c :: nat) \<and> (of_char c :: nat) \<le> 122)"

definition isDigit :: "char \<Rightarrow> bool" where
  "isDigit c = (48 \<le> (of_char c :: nat) \<and> (of_char c :: nat) \<le> 57)"

text \<open>
  Lower-casing adds 32 to the code of an upper-case ASCII letter, which sets the bit of
  value 32 (clear in the codes 65 to 90).
\<close>

definition toLowerChar :: "char \<Rightarrow> char" where
  "toLowerChar c =
     (if isUpper c
        then (case c of Char b0 b1 b2 b3 b4 b5 b6 b7 \<Rightarrow> Char b0 b1 b2 b3 b4 True b6 b7)
      else c)"

definition ToLower :: "string \<Rightarrow> string" where
  "ToLower s = map toLowerChar s"

section \<open>Schema derivation: getFieldConfig\<close>

datatype FieldConfig =
  FieldConfig (fcType: FieldType) (fcDefault: "(rtype \<times> gval) option") (fcFormat: string)
    (fcRequired: bool) (fcSubType: FieldType)
    (fcSubFields: "(string \<times> FieldConfig) list option")

type_synonym schema = "(string \<times> FieldConfig) list"

text \<open>
  The loop of getFieldConfig over the fields of \<open>structType\<close>. \<open>vals\<close> holds the values
  of the fields still to visit when \<open>structVal\<close> is not zero, and is \<open>None\<close> when it is
  zero, where the code leaves \<open>f\<close> the zero Value. The recursive calls of the source pass
  \<open>reflect.New(t).Interface()\<close>, a pointer to the zero value of the struct type \<open>t\<close>:
  they run the same loop on the fields of \<open>t\<close> with no values
  (lemma \<open>getFieldConfig_New\<close> below).
\<close>

fun structFields :: "rtype \<Rightarrow> sfield list" where
  "structFields (StructT n fs) = fs"
| "structFields t = []"

lemma size_deref: "size (deref t) \<le> size t"
  by (cases t) (simp_all add: deref_def)

lemma size_structFields: "size_list size (structFields t) \<le> size t"
  by (cases t) simp_all

lemma size_getSubTypeType: "getSubTypeType t = Inr u \<Longrightarrow> size u \<le> size t"
proof (cases "deref t")
  case (SliceT n e)
  assume "getSubTypeType t = Inr u"
  with SliceT have "u = deref e" by (simp add: getSubTypeType_def)
  moreover have "size (deref e) \<le> size e" by (rule size_deref)
  moreover have "size e < size (deref t)" using SliceT by simp
  moreover have "size (deref t) \<le> size t" by (rule size_deref)
  ultimately show ?thesis by simp
next
  case (MapT n k e)
  assume "getSubTypeType t = Inr u"
  with MapT have "u = deref e" by (simp add: getSubTypeType_def)
  moreover have "size (deref e) \<le> size e" by (rule size_deref)
  moreover have "size e < size (deref t)" using MapT by simp
  moreover have "size (deref t) \<le> size t" by (rule size_deref)
  ultimately show ?thesis by simp
next
  case (StructT n fs)
  assume "getSubTypeType t = Inr u"
  with StructT have "u = deref t" by (simp add: getSubTypeType_def)
  then show ?thesis by (simp add: size_deref)
qed (simp_all add: getSubTypeType_def)

lemma size_sfield_Type: "size (Type ft) < size ft"
  by (cases ft) simp

lemma size_sub_fields:
  "getSubTypeType (Type ft) = Inr t \<Longrightarrow>
   size_list size (structFields t) < size_list size (ft # fts)"
proof -
  assume a: "getSubTypeType (Type ft) = Inr t"
  have "size_list size (structFields t) \<le> size t" by (rule size_structFields)
  also have "\<dots> \<le> size (Type ft)" using a by (rule size_getSubTypeType)
  also have "\<dots> < size ft" by (rule size_sfield_Type)
  finally show ?thesis by simp
qed

function getFieldConfig_loop :: "sfield list \<Rightarrow> gval list option \<Rightarrow> schema \<Rightarrow> error + schema" where
  "getFieldConfig_loop [] vals cfg = Inr cfg"
| "getFieldConfig_loop (ft # fts) vals cfg =
     (let f = (case vals of Some (v # vs) \<Rightarrow> Val (Type ft) v True RW | _ \<Rightarrow> ZeroValue);
          rest = (case vals of Some (v # vs) \<Rightarrow> Some vs | _ \<Rightarrow> None);
          ftType = deref (Type ft)
      in
      if Name ft \<noteq> [] \<and> toLowerChar (hd (Name ft)) = hd (Name ft)
        then getFieldConfig_loop fts rest cfg
      else if Tag_Get (Tag ft) ''toml'' = ''-''
        then getFieldConfig_loop fts rest cfg
      else if Kind ftType = KFunc \<or> Kind ftType = KInterface
        then getFieldConfig_loop fts rest cfg
      else if Kind ftType = KStruct \<and> \<not> isInternalStructFieldType (Type ft) then
        (case getSubTypeType (Type ft) of
           Inl e \<Rightarrow> Inl e
         | Inr t \<Rightarrow>
            if Anonymous ft then
              (case getFieldConfig_loop (structFields t) None cfg of
                 Inl e \<Rightarrow> Inl e
               | Inr cfg' \<Rightarrow> getFieldConfig_loop fts rest cfg')
            else
              (case getFieldConfig_loop (structFields t) None [] of
                 Inl e \<Rightarrow> Inl e
               | Inr subCfg \<Rightarrow>
                   getFieldConfig_loop fts rest
                     (AList.update (Name ft)
                        (FieldConfig FieldTypeFieldConfig None [] False (getFieldType t)
                           (Some subCfg)) cfg)))
      else
        (case getFieldTypeFromStructField ft of
           Inl e \<Rightarrow> Inl e
         | Inr ty \<Rightarrow>
            let dflt = (case f of
                          ZeroValue \<Rightarrow> None
                        | Val t v a r \<Rightarrow> if isZero v then None else Some (t, v))
            in
            if hasSubType (Type ft) then
              (case getSubTypeType (Type ft) of
                 Inl e \<Rightarrow> Inl e
               | Inr t \<Rightarrow>
                  if Kind t = KStruct then
                    (case getFieldConfig_loop (structFields t) None [] of
                       Inl e \<Rightarrow> Inl e
                     | Inr subCfg \<Rightarrow>
                         getFieldConfig_loop fts rest
                           (AList.update (Name ft)
                              (FieldConfig ty dflt (Tag_Get (Tag ft) ''format'')
                                 (Tag_Get (Tag ft) ''required'' = ''true'') (getFieldType t)
                                 (Some subCfg)) cfg))
                  else
                    getFieldConfig_loop fts rest
                      (AList.update (Name ft)
                         (FieldConfig ty dflt (Tag_Get (Tag ft) ''format'')
                            (Tag_Get (Tag ft) ''required'' = ''true'') (getFieldType t)
                            None) cfg))
            else
              getFieldConfig_loop fts rest
                (AList.update (Name ft)
                   (FieldConfig ty dflt (Tag_Get (Tag ft) ''format'')
                      (Tag_Get (Tag ft) ''required'' = ''true'') FieldTypeUnknown None) cfg)))"
  by pat_completeness auto

termination getFieldConfig_loop
  apply (relation "measure (\<lambda>(fs, vals, cfg). size_list size fs)")
  apply simp
  apply simp
  apply simp
  apply simp
  apply (simp only: in_measure prod.case, erule size_sub_fields)
  apply simp
  apply (simp only: in_measure prod.case, erule size_sub_fields)
  apply simp
  apply (simp only: in_measure prod.case, erule size_sub_fields)
  apply simp
  apply simp
  apply simp
  done

text \<open>
  \<open>structVal.Elem()\<close> and \<open>structType.Elem()\<close> while the type is a pointer: a nil pointer
  gives the zero Value, and \<open>Elem\<close> of the zero Value panics.
\<close>

fun stripPtr :: "rtype \<Rightarrow> Value \<Rightarrow> error + (rtype \<times> Value)" where
  "stripPtr t v =
     (case t of
        PtrT n e \<Rightarrow>
          (case v of
             ZeroValue \<Rightarrow> Inl (Panic ''reflect: call of reflect.Value.Elem on zero Value'')
           | Val ty g a r \<Rightarrow>
               (case g of
                  GPtr None \<Rightarrow> stripPtr e ZeroValue
                | GPtr (Some x) \<Rightarrow> stripPtr e (Val e x True r)
                | _ \<Rightarrow> Inl (Panic ''value is not of its type'')))
      | _ \<Rightarrow> Inr (t, v))"

declare stripPtr.simps [simp del]

definition getFieldConfig :: "(rtype \<times> gval) option \<Rightarrow> schema \<Rightarrow> error + schema" where
  "getFieldConfig p cfg =
     (case p of
        None \<Rightarrow> Inl (Panic ''reflect: call of reflect.Value.Type on zero Value'')
      | Some (t, v) \<Rightarrow>
         (case stripPtr t (ValueOf p) of
            Inl e \<Rightarrow> Inl e
          | Inr (structType, structVal) \<Rightarrow>
             if Kind structType \<noteq> KStruct
               then Inl (Panic ''getFieldConfig expected a struct type'')
             else if structFields structType = [] then Inr cfg
             else
               (case structVal of
                  ZeroValue \<Rightarrow>
                    Inl (Panic ''reflect: call of reflect.Value.IsZero on zero Value'')
                | Val ty (GStruct vs) a r \<Rightarrow>
                    getFieldConfig_loop (structFields structType)
                      (if isZero (GStruct vs) then None else Some vs) cfg
                | Val ty _ a r \<Rightarrow> Inl (Panic ''value is not of its type''))))"

text \<open>\<open>reflect.New(t).Interface()\<close>: a pointer to the zero value of \<open>t\<close>.\<close>

definition New :: "rtype \<Rightarrow> (rtype \<times> gval) option" where
  "New t = Some (PtrT [] t, GPtr (Some (zero t)))"

text \<open>
  The field types a schema may carry, at every depth: the members of the enumeration
  other than unknown.
\<close>

fun knownTypes :: "FieldConfig \<Rightarrow> bool" where
  "knownTypes (FieldConfig ty d f r st sub) =
     (ty \<in> {FieldTypeString, FieldTypeInteger, FieldTypeFloat, FieldTypeBool,
             FieldTypeDuration, FieldTypeSize, FieldTypeInterface, FieldTypeSlice,
             FieldTypeMap, FieldTypeFieldConfig}
      \<and> (case sub of None \<Rightarrow> True | Some fs \<Rightarrow> list_all (\<lambda>kv. knownTypes (snd kv)) fs))"

definition schemaKnown :: "schema \<Rightarrow> bool" where
  "schemaKnown cfg = list_all (\<lambda>kv. knownTypes (snd kv)) cfg"

text \<open>
  A field that reaches the translation of its type in getFieldConfig: it passes the
  test on its first letter, is not excluded by its toml tag, and is not skipped as a
  function or an interface.
\<close>

definition reachesTypeMapping :: "sfield \<Rightarrow> bool" where
  "reachesTypeMapping ft =
     ((Name ft = [] \<or> toLowerChar (hd (Name ft)) \<noteq> hd (Name ft))
      \<and> Tag_Get (Tag ft) ''toml'' \<noteq> ''-''
      \<and> Kind (deref (Type ft)) \<noteq> KFunc \<and> Kind (deref (Type ft)) \<noteq> KInterface)"

section \<open>Field names: toSnakeCase and isExported\<close>

text \<open>
  \<open>matchFirstCapital.ReplaceAllString(str, "${1}_${2}")\<close> for the expression
  \<open>(.)([A-Z][a-z]+)\<close>: scanning from the left, a match starts at any character but a
  newline that is followed by an upper-case letter and a lower-case letter, and takes
  all the lower-case letters that follow; the search goes on after the match.
\<close>

function replaceFirstCapital :: "string \<Rightarrow> string" where
  "replaceFirstCapital [] = []"
| "replaceFirstCapital [c] = [c]"
| "replaceFirstCapital [c, u] = [c, u]"
| "replaceFirstCapital (c # u # l # rest) =
     (if c \<noteq> CHR 0x0A \<and> isUpper u \<and> isLower l
        then c # CHR ''_'' # u # takeWhile isLower (l # rest)
             @ replaceFirstCapital (dropWhile isLower (l # rest))
      else c # replaceFirstCapital (u # l # rest))"
  by pat_completeness auto
termination
  by (relation "measure length") (auto simp: le_imp_less_Suc length_dropWhile_le less_Suc_eq_le
        intro: le_trans[OF length_dropWhile_le])

text \<open>
  \<open>matchAllCapitals.ReplaceAllString(snakeStr, "${1}_${2}")\<close> for the expression
  \<open>([a-z0-9])([A-Z])\<close>.
\<close>

fun replaceAllCapitals :: "string \<Rightarrow> string" where
  "replaceAllCapitals [] = []"
| "replaceAllCapitals [c] = [c]"
| "replaceAllCapitals (c # u # rest) =
     (if (isLower c \<or> isDigit c) \<and> isUpper u
        then c # CHR ''_'' # u # replaceAllCapitals rest
      else c # replaceAllCapitals (u # rest))"

definition toSnakeCase :: "string \<Rightarrow> sfield \<Rightarrow> string \<times> bool" where
  "toSnakeCase str sf =
     (case Tag_Lookup (Tag sf) ''toml'' of
        Some toml \<Rightarrow> if toml = ''-'' then ([], False) else (toml, True)
      | None \<Rightarrow> (ToLower (replaceAllCapitals (replaceFirstCapital str)), True))"

text \<open>\<open>ft.Name[0]\<close> panics on an empty name.\<close>

definition isExported :: "sfield \<Rightarrow> error + bool" where
  "isExported ft =
     (case Name ft of
        [] \<Rightarrow> Inl (Panic ''runtime error: index out of range [0] with length 0'')
      | c # cs \<Rightarrow> Inr (isUpper c))"

text \<open>
  The naming rule in the words of the specification: an underscore before each run of
  upper-case letters that follows a lower-case letter or a digit, then the whole name in
  lower case.
\<close>

fun specInsert :: "string \<Rightarrow> string" where
  "specInsert [] = []"
| "specInsert [c] = [c]"
| "specInsert (c # u # rest) =
     (if (isLower c \<or> isDigit c) \<and> isUpper u
        then c # CHR ''_'' # specInsert (u # rest)
      else c # specInsert (u # rest))"

definition spec_toSnakeCase :: "string \<Rightarrow> string" where
  "spec_toSnakeCase str = ToLower (specInsert str)"

text \<open>
  Names in which every capitalised word (an upper-case letter followed by a lower-case
  letter) that has a character before it comes after a lower-case letter or a digit.
\<close>

fun wordsFollowLower :: "string \<Rightarrow> bool" where
  "wordsFollowLower (c # u # l # rest) =
     ((isUpper u \<and> isLower l \<longrightarrow> isLower c \<or> isDigit c) \<and> wordsFollowLower (u # l # rest))"
| "wordsFollowLower s = True"

section \<open>The field resolver: getFieldByName\<close>

text \<open>
  \<open>v.Field(i)\<close> keeps the addressability of the struct and is read-only when the
  struct is sticky read-only or the field is not exported in Go's sense (its name does
  not start with an upper-case letter).
\<close>

definition fieldFlag :: "roflag \<Rightarrow> sfield \<Rightarrow> roflag" where
  "fieldFlag parent f =
     (if parent = StickyRO then StickyRO
      else if Name f \<noteq> [] \<and> isUpper (hd (Name f)) then RW
      else if Anonymous f then EmbedRO
      else StickyRO)"

text \<open>
  The result of getFieldByName: the field as a Value, its type (\<open>None\<close> for
  \<open>reflect.TypeOf(nil)\<close>), and the place of the field, which the Value refers to in
  Go: the indices leading to it from the struct, through embedded structs.
\<close>

type_synonym resolved = "Value \<times> rtype option \<times> nat list"

text \<open>
  The loop of getFieldByName over the fields from index \<open>i\<close> on, of a struct with
  addressability \<open>a\<close> and flag \<open>r\<close>. The recursive call of the source is on an embedded
  field of kind struct, where neither the pointer nor the interface case applies:
  \<open>destStruct.Interface()\<close> panics on a read-only Value, then the same loop runs on the
  fields of the embedded struct (lemma \<open>getFieldByName_struct\<close> below).
\<close>

function getFieldByName_fields ::
  "sfield list \<Rightarrow> gval list \<Rightarrow> nat \<Rightarrow> bool \<Rightarrow> roflag \<Rightarrow> string \<Rightarrow> error + resolved" where
  "getFieldByName_fields [] vs i a r fieldName = Inr (ZeroValue, None, [])"
| "getFieldByName_fields (fieldType # fts) [] i a r fieldName =
     Inl (Panic ''value is not of its type'')"
| "getFieldByName_fields (fieldType # fts) (v # vs) i a r fieldName =
     (let field = Val (Type fieldType) v a (fieldFlag r fieldType);
          embedded =
            (if Kind (Type fieldType) = KStruct \<and> Anonymous fieldType then
               (if fieldFlag r fieldType \<noteq> RW
                  then Inl (Panic (''reflect.Value.Interface: cannot return value obtained ''
                                   @ ''from unexported field or method''))
                else
                  (case v of
                     GStruct sub \<Rightarrow>
                       (case getFieldByName_fields (structFields (Type fieldType)) sub 0 a RW
                               fieldName of
                          Inl e \<Rightarrow> Inl e
                        | Inr (fv, t, path) \<Rightarrow>
                            if t \<noteq> None then Inr (Some (fv, t, i # path)) else Inr None)
                   | _ \<Rightarrow> Inl (Panic ''value is not of its type'')))
             else Inr None)
      in
      case embedded of
        Inl e \<Rightarrow> Inl e
      | Inr (Some found) \<Rightarrow> Inr found
      | Inr None \<Rightarrow>
          if Tag_Get (Tag fieldType) ''toml'' = fieldName
            then Inr (field, Some (Type fieldType), [i])
          else
            (case toSnakeCase (Name fieldType) fieldType of
               (name, ok) \<Rightarrow>
                 if ok \<and> name = fieldName then
                   (case isExported fieldType of
                      Inl e \<Rightarrow> Inl e
                    | Inr True \<Rightarrow> Inr (field, Some (Type fieldType), [i])
                    | Inr False \<Rightarrow> getFieldByName_fields fts vs (i + 1) a r fieldName)
                 else getFieldByName_fields fts vs (i + 1) a r fieldName))"
  by pat_completeness auto
termination
  apply (relation "measure (\<lambda>(fs, vs, i, a, r, n). size_list size fs)")
     apply simp
    apply (simp only: in_measure prod.case)
    apply (rule le_less_trans[OF size_structFields])
    apply (simp add: size_sfield_Type less_SucI trans_less_add1)
   apply simp
  apply simp
  done

definition getFieldByName :: "Value \<Rightarrow> string \<Rightarrow> error + resolved" where
  "getFieldByName destStruct0 fieldName =
     (case (case destStruct0 of
              Val t (GPtr p) a r \<Rightarrow>
                (case p of None \<Rightarrow> None
                 | Some x \<Rightarrow> Some (case t of PtrT n e \<Rightarrow> Val e x True r | _ \<Rightarrow> ZeroValue))
            | _ \<Rightarrow> Some destStruct0) of
        None \<Rightarrow> Inr (ZeroValue, None, [])
      | Some destStruct1 \<Rightarrow>
         (let destStruct =
                (case destStruct1 of
                   Val t (GIface x) a r \<Rightarrow>
                     (case x of None \<Rightarrow> ZeroValue | Some (dt, dv) \<Rightarrow> Val dt dv False r)
                 | _ \<Rightarrow> destStruct1)
          in
          case destStruct of
            ZeroValue \<Rightarrow>
              Inl (Panic ''reflect: call of reflect.Value.Interface on zero Value'')
          | Val t v a r \<Rightarrow>
              if r \<noteq> RW
                then Inl (Panic (''reflect.Value.Interface: cannot return value obtained ''
                                 @ ''from unexported field or method''))
              else
                (case v of
                   GStruct vs \<Rightarrow> getFieldByName_fields (structFields t) vs 0 a r fieldName
                 | _ \<Rightarrow> Inl (Panic ''reflect: call of reflect.Value.NumField on non-struct Value''))))"

section \<open>The lifecycle manager\<close>

text \<open>
  The agent is seen through its three lists of running plugins. Of a running plugin the
  code reads its ID and its state. Hooks are callbacks; a call is recorded in the trace
  of effects, with the stop requests sent to the agent. Log lines are left out.
\<close>

text \<open>
  Modelled from the spec: the declaration of \<open>models.PluginState\<close> is missing; the states
  are those of the state machine Created, Running, Stopping, Dead.
\<close>

datatype PluginState =
  PluginStateCreated | PluginStateRunning | PluginStateStopping | PluginStateDead

record RunningPlugin =
  ID :: "64 word"
  LogName :: string
  State :: PluginState

record agent =
  RunningInputs :: "RunningPlugin list"
  RunningProcessors :: "RunningPlugin list"
  RunningOutputs :: "RunningPlugin list"

datatype 'h event =
    CallHook 'h string
  | StopInput RunningPlugin
  | StopProcessor RunningPlugin
  | StopOutput RunningPlugin

text \<open>
  Modelled from the spec: the declarations of the errors \<open>ErrNotFound\<close> and
  \<open>ErrBadRequest\<close> are missing; they are the NotFound and BadRequest of the taxonomy.
\<close>

definition ErrNotFound :: error where
  "ErrNotFound = Errorf ''not found'' [] None"

definition ErrBadRequest :: error where
  "ErrBadRequest = Errorf ''bad request'' [] None"

text \<open>\<open>errors.Is(e, target)\<close>: the error or one it wraps is the target.\<close>

fun errors_Is :: "error \<Rightarrow> error \<Rightarrow> bool" where
  "errors_Is (Panic m) target = (Panic m = target)"
| "errors_Is (Errorf f args w) target =
     (Errorf f args w = target \<or> (case w of None \<Rightarrow> False | Some e \<Rightarrow> errors_Is e target))"

text \<open>removePluginHook: each hook of \<open>a.removeHooks\<close> is called, in order.\<close>

definition removePluginHook :: "'h list \<Rightarrow> string \<Rightarrow> 'h event list" where
  "removePluginHook removeHooks p = map (\<lambda>h. CallHook h p) removeHooks"

text \<open>
  DeletePlugin. \<open>Uint64\<close> is the method of \<open>models.PluginID\<close> that reads the number of
  an id, a parameter since its declaration is missing. The result is the trace and the
  error, \<open>None\<close> for nil.
\<close>

definition DeletePlugin ::
  "(string \<Rightarrow> 64 word) \<Rightarrow> 'h list \<Rightarrow> agent \<Rightarrow> string \<Rightarrow> 'h event list \<times> error option" where
  "DeletePlugin Uint64 removeHooks ag pid =
     (let hooked = removePluginHook removeHooks pid in
      case find (\<lambda>v. ID v = Uint64 pid) (RunningInputs ag) of
        Some v \<Rightarrow> (hooked @ [StopInput v], None)
      | None \<Rightarrow>
         (case find (\<lambda>v. ID v = Uint64 pid) (RunningProcessors ag) of
            Some v \<Rightarrow> (hooked @ [StopProcessor v], None)
          | None \<Rightarrow>
             (case find (\<lambda>v. ID v = Uint64 pid) (RunningOutputs ag) of
                Some v \<Rightarrow> (hooked @ [StopOutput v], None)
              | None \<Rightarrow> (hooked, Some ErrNotFound))))"

definition GetPluginStatus :: "(string \<Rightarrow> 64 word) \<Rightarrow> agent \<Rightarrow> string \<Rightarrow> PluginState" where
  "GetPluginStatus Uint64 ag pid =
     (case find (\<lambda>v. ID v = Uint64 pid) (RunningInputs ag) of
        Some v \<Rightarrow> State v
      | None \<Rightarrow>
         (case find (\<lambda>v. ID v = Uint64 pid) (RunningProcessors ag) of
            Some v \<Rightarrow> State v
          | None \<Rightarrow>
             (case find (\<lambda>v. ID v = Uint64 pid) (RunningOutputs ag) of
                Some v \<Rightarrow> State v
              | None \<Rightarrow> PluginStateDead)))"

text \<open>
  The wait of UpdatePlugin. The agent stops plugins on its own threads, so the status
  read by the \<open>n\<close>-th test of the loop is given by \<open>status n\<close>. Time is counted in waits:
  the waits before the \<open>deadline\<close>-th end by the timer of 100 milliseconds, the
  \<open>deadline\<close>-th ends by the context of 30 seconds. The result tells whether the
  status Dead was read.
\<close>

function waitDead :: "(nat \<Rightarrow> PluginState) \<Rightarrow> nat \<Rightarrow> nat \<Rightarrow> bool" where
  "waitDead status deadline n =
     (if status n = PluginStateDead then True
      else if deadline \<le> n then False
      else waitDead status deadline (Suc n))"
  by pat_completeness auto
termination
  by (relation "measure (\<lambda>(status, deadline, n). deadline - n)") auto

declare waitDead.simps [simp del]

text \<open>
  UpdatePlugin. \<open>world 0\<close> is the agent as DeletePlugin finds it, \<open>world (Suc n)\<close> as the
  \<open>n\<close>-th test of the loop finds it. \<open>create\<close> stands for the call of CreatePlugin with
  the forced id, with its trace and result.
\<close>

definition UpdatePlugin ::
  "(string \<Rightarrow> 64 word) \<Rightarrow> 'h list \<Rightarrow> (nat \<Rightarrow> agent) \<Rightarrow> nat
   \<Rightarrow> ('c \<Rightarrow> string \<Rightarrow> 'h event list \<times> (error + string))
   \<Rightarrow> string \<Rightarrow> 'c \<Rightarrow> 'h event list \<times> error option" where
  "UpdatePlugin Uint64 removeHooks world deadline create pid cfg =
     (case DeletePlugin Uint64 removeHooks (world 0) pid of
        (deleted, Some err) \<Rightarrow> (deleted, Some err)
      | (deleted, None) \<Rightarrow>
          if waitDead (\<lambda>n. GetPluginStatus Uint64 (world (Suc n)) pid) deadline 0
            then (case create cfg pid of
                    (created, Inl err) \<Rightarrow> (deleted @ created, Some err)
                  | (created, Inr newid) \<Rightarrow> (deleted @ created, None))
          else (deleted, Some (Errorf ''timed out shutting down plugin for update'' [] None)))"

text \<open>\<open>strings.Split(s, ".")\<close>: the parts of \<open>s\<close> between the separators, at least one.\<close>

fun Split :: "string \<Rightarrow> char \<Rightarrow> string list" where
  "Split [] sep = [[]]"
| "Split (c # s) sep =
     (if c = sep then [] # Split s sep
      else (case Split s sep of p # ps \<Rightarrow> (c # p) # ps | [] \<Rightarrow> [[c]]))"

text \<open>
  CreatePlugin, up to the lookup of the plugin in the registry of its category. The
  registries are given by the sets of names they hold; \<open>create\<close> stands for the rest of
  each case, from the call of the creator on.
\<close>

record registries =
  Inputs :: "string set"
  Outputs :: "string set"
  Aggregators :: "string set"
  Processors :: "string set"

definition CreatePlugin ::
  "registries \<Rightarrow> (string \<Rightarrow> string \<Rightarrow> error + string) \<Rightarrow> string \<Rightarrow> error + string" where
  "CreatePlugin reg create cfgName =
     (let parts = Split cfgName CHR ''.'' in
      if length parts < 2
        then Inl (Panic ''runtime error: index out of range [1] with length 1'')
      else
        let pluginType = parts ! 0; name = parts ! 1 in
        if pluginType = ''inputs'' then
          (if name \<notin> Inputs reg
             then Inl (Errorf ''%w: finding plugin with name %s'' [name] (Some ErrNotFound))
           else create pluginType name)
        else if pluginType = ''outputs'' then
          (if name \<notin> Outputs reg
             then Inl (Errorf ''%w: Error finding plugin with name %s'' [name]
                         (Some ErrNotFound))
           else create pluginType name)
        else if pluginType = ''aggregators'' then
          (if name \<notin> Aggregators reg
             then Inl (Errorf ''%w: Error finding aggregator plugin with name %s'' [name]
                         (Some ErrNotFound))
           else create pluginType name)
        else if pluginType = ''processors'' then
          (if name \<notin> Processors reg
             then Inl (Errorf ''%w: Error finding processor plugin with name %s'' [name]
                         (Some ErrNotFound))
           else create pluginType name)
        else Inl (Errorf ''%w: Unknown plugin type'' [] (Some ErrNotFound)))"

text \<open>An agent with one running processor, for the examples.\<close>

definition demoPlugin :: RunningPlugin where
  "demoPlugin = \<lparr>ID = 7, LogName = ''inputs.cpu'', State = PluginStateStopping\<rparr>"

definition demoAgent :: agent where
  "demoAgent = \<lparr>RunningInputs = [], RunningProcessors = [demoPlugin], RunningOutputs = []\<rparr>"

section \<open>Operations of package reflect used by the binder\<close>

text \<open>
  Assignability as \<open>reflect\<close> decides it for \<open>Set\<close> and \<open>SetMapIndex\<close>: the types are
  the same, or they have the same kind and the same underlying type and at most one of
  them is named, or the destination is an interface that the source implements. The
  values bound come from decoded data and have no methods, so the only interface they
  implement is the empty one.
\<close>

fun underlying :: "rtype \<Rightarrow> rtype" where
  "underlying (Basic n k) = Basic (kind_String k) k"
| "underlying (PtrT n t) = PtrT [] t"
| "underlying (SliceT n t) = SliceT [] t"
| "underlying (ArrayT n l t) = ArrayT [] l t"
| "underlying (ChanT n t) = ChanT [] t"
| "underlying (MapT n k t) = MapT [] k t"
| "underlying (FuncT n) = FuncT []"
| "underlying (InterfaceT n k) = InterfaceT [] k"
| "underlying (StructT n fs) = StructT [] fs"

fun hasName :: "rtype \<Rightarrow> bool" where
  "hasName (Basic n k) = True"
| "hasName (PtrT n t) = (n \<noteq> [])"
| "hasName (SliceT n t) = (n \<noteq> [])"
| "hasName (ArrayT n l t) = (n \<noteq> [])"
| "hasName (ChanT n t) = (n \<noteq> [])"
| "hasName (MapT n k t) = (n \<noteq> [])"
| "hasName (FuncT n) = (n \<noteq> [])"
| "hasName (InterfaceT n k) = (n \<noteq> [])"
| "hasName (StructT n fs) = (n \<noteq> [])"

definition directlyAssignable :: "rtype \<Rightarrow> rtype \<Rightarrow> bool" where
  "directlyAssignable T V =
     (T = V \<or> (\<not> (hasName T \<and> hasName V) \<and> Kind T = Kind V \<and> underlying T = underlying V))"

definition implements :: "rtype \<Rightarrow> rtype \<Rightarrow> bool" where
  "implements T V = (case T of InterfaceT n k \<Rightarrow> k = 0 | _ \<Rightarrow> False)"

text \<open>
  \<open>v.assignTo(dst)\<close>: the value as one of type \<open>dst\<close>, or a panic. A value stored in an
  interface keeps its dynamic type.
\<close>

definition assignTo :: "rtype \<Rightarrow> gval \<Rightarrow> rtype \<Rightarrow> error + gval" where
  "assignTo t v dst =
     (if directlyAssignable dst t then Inr v
      else if implements dst t then
        (case v of GIface x \<Rightarrow> Inr (GIface x) | _ \<Rightarrow> Inr (GIface (Some (t, v))))
      else Inl (Panic (''reflect.Set: value of type '' @ type_String t
                       @ '' is not assignable to type '' @ type_String dst)))"

text \<open>
  The setters return the new content of the place the Value \<open>to\<close> refers to. All of them
  panic unless \<open>to\<close> can be set; the typed ones panic on a Value of another kind.
\<close>

definition mustBeAssignable :: "Value \<Rightarrow> error option" where
  "mustBeAssignable to =
     (case to of
        ZeroValue \<Rightarrow> Some (Panic ''reflect: call of reflect.Value.Set on zero Value'')
      | Val t v a r \<Rightarrow>
          if r \<noteq> RW
            then Some (Panic ''reflect: reflect.Value.Set using value obtained using unexported field'')
          else if \<not> a then Some (Panic ''reflect: reflect.Value.Set using unaddressable value'')
          else None)"

definition Set :: "Value \<Rightarrow> Value \<Rightarrow> error + gval" where
  "Set to x =
     (case mustBeAssignable to of
        Some e \<Rightarrow> Inl e
      | None \<Rightarrow>
         (case x of
            ZeroValue \<Rightarrow> Inl (Panic ''reflect: call of reflect.Value.Set on zero Value'')
          | Val xt xv xa xr \<Rightarrow>
              if xr \<noteq> RW
                then Inl (Panic ''reflect: reflect.Value.Set using value obtained using unexported field'')
              else assignTo xt xv (vtyp to)))"

definition SetBool :: "Value \<Rightarrow> bool \<Rightarrow> error + gval" where
  "SetBool to b =
     (case mustBeAssignable to of
        Some e \<Rightarrow> Inl e
      | None \<Rightarrow>
          if ValueKind to = KBool then Inr (GBool b)
          else Inl (Panic (''reflect: call of reflect.Value.SetBool on ''
                           @ kind_String (ValueKind to) @ '' Value'')))"

text \<open>
  Integers are stored in the width of the kind, keeping the low bits; \<open>int\<close>, \<open>uint\<close> and
  \<open>uintptr\<close> have 64 bits.
\<close>

definition bits :: "kind \<Rightarrow> nat" where
  "bits k = (if k = KInt8 \<or> k = KUint8 then 8
             else if k = KInt16 \<or> k = KUint16 then 16
             else if k = KInt32 \<or> k = KUint32 then 32
             else 64)"

definition wrapInt :: "kind \<Rightarrow> int \<Rightarrow> int" where
  "wrapInt k i = (i + 2 ^ (bits k - 1)) mod 2 ^ bits k - 2 ^ (bits k - 1)"

definition wrapUint :: "kind \<Rightarrow> nat \<Rightarrow> nat" where
  "wrapUint k n = n mod 2 ^ bits k"

definition SetInt :: "Value \<Rightarrow> int \<Rightarrow> error + gval" where
  "SetInt to i =
     (case mustBeAssignable to of
        Some e \<Rightarrow> Inl e
      | None \<Rightarrow>
          if isIntKind (ValueKind to) then Inr (GInt (wrapInt (ValueKind to) i))
          else Inl (Panic (''reflect: call of reflect.Value.SetInt on ''
                           @ kind_String (ValueKind to) @ '' Value'')))"

definition SetUint :: "Value \<Rightarrow> nat \<Rightarrow> error + gval" where
  "SetUint to n =
     (case mustBeAssignable to of
        Some e \<Rightarrow> Inl e
      | None \<Rightarrow>
          if isUintKind (ValueKind to) \<or> ValueKind to = KUintptr
            then Inr (GUint (wrapUint (ValueKind to) n))
          else Inl (Panic (''reflect: call of reflect.Value.SetUint on ''
                           @ kind_String (ValueKind to) @ '' Value'')))"

text \<open>The rounding of a float32 is not modelled.\<close>

definition SetFloat :: "Value \<Rightarrow> real \<Rightarrow> error + gval" where
  "SetFloat to x =
     (case mustBeAssignable to of
        Some e \<Rightarrow> Inl e
      | None \<Rightarrow>
          if isFloatKind (ValueKind to) then Inr (GFloat x)
          else Inl (Panic (''reflect: call of reflect.Value.SetFloat on ''
                           @ kind_String (ValueKind to) @ '' Value'')))"

text \<open>The getters panic on a Value of another kind.\<close>

definition Value_Int :: "Value \<Rightarrow> error + int" where
  "Value_Int v =
     (case v of
        Val t (GInt i) a r \<Rightarrow> if isIntKind (Kind t) then Inr i
                               else Inl (Panic ''value is not of its type'')
      | _ \<Rightarrow> Inl (Panic (''reflect: call of reflect.Value.Int on ''
                          @ kind_String (ValueKind v) @ '' Value'')))"

definition Value_Uint :: "Value \<Rightarrow> error + nat" where
  "Value_Uint v =
     (case v of
        Val t (GUint n) a r \<Rightarrow> if isUintKind (Kind t) \<or> Kind t = KUintptr then Inr n
                                else Inl (Panic ''value is not of its type'')
      | _ \<Rightarrow> Inl (Panic (''reflect: call of reflect.Value.Uint on ''
                          @ kind_String (ValueKind v) @ '' Value'')))"

definition Value_Float :: "Value \<Rightarrow> error + real" where
  "Value_Float v =
     (case v of
        Val t (GFloat x) a r \<Rightarrow> if isFloatKind (Kind t) then Inr x
                                 else Inl (Panic ''value is not of its type'')
      | _ \<Rightarrow> Inl (Panic (''reflect: call of reflect.Value.Float on ''
                          @ kind_String (ValueKind v) @ '' Value'')))"

definition Value_Bool :: "Value \<Rightarrow> error + bool" where
  "Value_Bool v =
     (case v of
        Val t (GBool b) a r \<Rightarrow> if Kind t = KBool then Inr b
                                else Inl (Panic ''value is not of its type'')
      | _ \<Rightarrow> Inl (Panic (''reflect: call of reflect.Value.Bool on ''
                          @ kind_String (ValueKind v) @ '' Value'')))"

text \<open>\<open>v.Interface().(string)\<close>: the string, when the type of the value is \<open>string\<close> itself.\<close>

definition assertString :: "Value \<Rightarrow> error + string" where
  "assertString v =
     (case v of
        Val t (GString s) a r \<Rightarrow>
          if t = Basic ''string'' KString then Inr s
          else Inl (Panic (''interface conversion: interface {} is '' @ type_String t
                           @ '', not string''))
      | Val t _ a r \<Rightarrow> Inl (Panic ''value is not of its type'')
      | ZeroValue \<Rightarrow> Inl (Panic ''reflect: call of reflect.Value.Interface on zero Value''))"

text \<open>\<open>v.Elem()\<close> of a pointer or an interface; the zero Value for nil.\<close>

definition Value_Elem :: "Value \<Rightarrow> error + Value" where
  "Value_Elem v =
     (case v of
        Val (PtrT n e) (GPtr None) a r \<Rightarrow> Inr ZeroValue
      | Val (PtrT n e) (GPtr (Some x)) a r \<Rightarrow> Inr (Val e x True r)
      | Val (InterfaceT n k) (GIface None) a r \<Rightarrow> Inr ZeroValue
      | Val (InterfaceT n k) (GIface (Some (t, x))) a r \<Rightarrow> Inr (Val t x False r)
      | _ \<Rightarrow> Inl (Panic (''reflect: call of reflect.Value.Elem on ''
                          @ kind_String (ValueKind v) @ '' Value'')))"

text \<open>
  The start of the scalar cases of setObject: a destination of kind pointer is given a
  new target of type \<open>destType.Elem()\<close>, and \<open>to\<close> becomes that target. The result is
  the Value to write to and whether it is the target of a new pointer.
\<close>

definition allocPtr :: "Value \<Rightarrow> rtype \<Rightarrow> error + (Value \<times> bool)" where
  "allocPtr to destType =
     (if ValueKind to = KPtr then
        (case Elem destType of
           Inl e \<Rightarrow> Inl e
         | Inr et \<Rightarrow>
            (case Set to (Val (PtrT [] et) (GPtr (Some (zero et))) False RW) of
               Inl e \<Rightarrow> Inl e
             | Inr p \<Rightarrow> Inr (Val et (zero et) True RW, True)))
      else Inr (to, False))"

definition wrapPtr :: "bool \<Rightarrow> error + gval \<Rightarrow> error + gval" where
  "wrapPtr viaPtr res =
     (case res of Inl e \<Rightarrow> Inl e | Inr v \<Rightarrow> Inr (if viaPtr then GPtr (Some v) else v))"

text \<open>\<open>fmt.Errorf\<close> with \<open>%w\<close> around an error; a panic is not an error and passes through.\<close>

definition wrapErr :: "string \<Rightarrow> string list \<Rightarrow> error \<Rightarrow> error" where
  "wrapErr fmt args e = (case e of Panic m \<Rightarrow> Panic m | _ \<Rightarrow> Errorf fmt args (Some e))"

text \<open>
  The functions of other packages that the binder and the extractor call: the parsers
  of durations and sizes, and the printers of both.
\<close>

record library =
  ParseDuration :: "string \<Rightarrow> error + int"
  ParseStrictBytes :: "string \<Rightarrow> error + int"
  Duration_String :: "int \<Rightarrow> string"
  Size_MarshalText :: "int \<Rightarrow> string"

section \<open>The binder: setObject and setFieldConfig\<close>

definition float64T :: rtype where "float64T = Basic ''float64'' KFloat64"
definition stringT :: rtype where "stringT = Basic ''string'' KString"
definition anyT :: rtype where "anyT = InterfaceT [] 0"
definition mapStringAnyT :: rtype where "mapStringAnyT = MapT [] stringT anyT"

definition elemIf :: "bool \<Rightarrow> rtype \<Rightarrow> rtype" where
  "elemIf viaPtr destType =
     (if viaPtr then (case Elem destType of Inr t \<Rightarrow> t | Inl e \<Rightarrow> destType) else destType)"

text \<open>The case \<open>reflect.Bool\<close> of setObject.\<close>

definition setObject_Bool :: "Value \<Rightarrow> Value \<Rightarrow> rtype \<Rightarrow> error + gval" where
  "setObject_Bool from to0 destType =
     (case allocPtr to0 destType of
        Inl e \<Rightarrow> Inl e
      | Inr (to, viaPtr) \<Rightarrow>
          wrapPtr viaPtr
            (if ValueKind to = KInterface then Set to from
             else (case Value_Bool from of Inl e \<Rightarrow> Inl e | Inr b \<Rightarrow> SetBool to b)))"

text \<open>The case \<open>reflect.String\<close>, where \<open>destType\<close> follows the pointer.\<close>

definition setObject_String :: "library \<Rightarrow> Value \<Rightarrow> Value \<Rightarrow> rtype \<Rightarrow> error + gval" where
  "setObject_String L from to0 destType0 =
     (case allocPtr to0 destType0 of
        Inl e \<Rightarrow> Inl e
      | Inr (to, viaPtr) \<Rightarrow>
          let destType = elemIf viaPtr destType0 in
          wrapPtr viaPtr
            (if type_String destType = ''time.Duration'' \<or> type_String destType = ''config.Duration''
               then (case assertString from of
                       Inl e \<Rightarrow> Inl e
                     | Inr s \<Rightarrow>
                        (case ParseDuration L s of
                           Inl err \<Rightarrow> Inl (Errorf ''Couldn't parse duration %q: %w'' [s] (Some err))
                         | Inr d \<Rightarrow> SetInt to d))
             else if type_String destType = ''config.Size''
               then (case assertString from of
                       Inl e \<Rightarrow> Inl e
                     | Inr s \<Rightarrow>
                        (case ParseStrictBytes L s of
                           Inl err \<Rightarrow> Inl (Errorf ''Couldn't parse size %q: %w'' [s] (Some err))
                         | Inr sz \<Rightarrow> SetInt to sz))
             else Set to from))"

text \<open>
  The cases of the signed integer kinds, where \<open>destType\<close> follows the pointer. The
  conversion \<open>float64(from.Int())\<close> is modelled without rounding.
\<close>

definition setObject_Int :: "Value \<Rightarrow> Value \<Rightarrow> rtype \<Rightarrow> error + gval" where
  "setObject_Int from to0 destType0 =
     (case allocPtr to0 destType0 of
        Inl e \<Rightarrow> Inl e
      | Inr (to, viaPtr) \<Rightarrow>
          let destType = elemIf viaPtr destType0 in
          wrapPtr viaPtr
            (if type_String destType = ''internal.Number''
               then (case Value_Int from of
                       Inl e \<Rightarrow> Inl e
                     | Inr i \<Rightarrow> Set to (Val float64T (GFloat (real_of_int i)) False RW))
             else if isUintKind (Kind destType)
               then (case Value_Int from of
                       Inl e \<Rightarrow> Inl e
                     | Inr i \<Rightarrow> SetUint to (nat (i mod 2 ^ 64)))
             else if isIntKind (Kind destType)
               then (case Value_Int from of Inl e \<Rightarrow> Inl e | Inr i \<Rightarrow> SetInt to i)
             else if isFloatKind (Kind destType)
               then (case Value_Float from of Inl e \<Rightarrow> Inl e | Inr x \<Rightarrow> SetFloat to x)
             else if Kind destType = KInterface then Set to from
             else Inl (Errorf ''cannot coerce int type into %s'' [kind_String (Kind destType)]
                         None)))"

text \<open>The cases of the unsigned integer kinds; \<open>destType\<close> stays the pointer type.\<close>

definition setObject_Uint :: "Value \<Rightarrow> Value \<Rightarrow> rtype \<Rightarrow> error + gval" where
  "setObject_Uint from to0 destType =
     (case allocPtr to0 destType of
        Inl e \<Rightarrow> Inl e
      | Inr (to, viaPtr) \<Rightarrow>
          wrapPtr viaPtr
            (if type_String destType = ''internal.Number''
               then (case Value_Uint from of
                       Inl e \<Rightarrow> Inl e
                     | Inr n \<Rightarrow> Set to (Val float64T (GFloat (real n)) False RW))
             else if ValueKind to = KInterface then Set to from
             else (case Value_Uint from of Inl e \<Rightarrow> Inl e | Inr n \<Rightarrow> SetUint to n)))"

text \<open>The cases of the float kinds; \<open>destType\<close> stays the pointer type.\<close>

definition setObject_Float :: "Value \<Rightarrow> Value \<Rightarrow> rtype \<Rightarrow> error + gval" where
  "setObject_Float from to0 destType =
     (case allocPtr to0 destType of
        Inl e \<Rightarrow> Inl e
      | Inr (to, viaPtr) \<Rightarrow>
          wrapPtr viaPtr
            (if type_String destType = ''internal.Number''
               then (case Value_Float from of
                       Inl e \<Rightarrow> Inl e
                     | Inr x \<Rightarrow> Set to (Val float64T (GFloat x) False RW))
             else if ValueKind to = KInterface then Set to from
             else (case Value_Float from of Inl e \<Rightarrow> Inl e | Inr x \<Rightarrow> SetFloat to x)))"

text \<open>Loops that stop at the first error.\<close>

fun mapE :: "('a \<Rightarrow> error + 'b) \<Rightarrow> 'a list \<Rightarrow> error + 'b list" where
  "mapE f [] = Inr []"
| "mapE f (x # xs) =
     (case f x of
        Inl e \<Rightarrow> Inl e
      | Inr y \<Rightarrow> (case mapE f xs of Inl e \<Rightarrow> Inl e | Inr ys \<Rightarrow> Inr (y # ys)))"

fun foldE :: "('a \<Rightarrow> 's \<Rightarrow> error + 's) \<Rightarrow> 'a list \<Rightarrow> 's \<Rightarrow> error + 's" where
  "foldE f [] s = Inr s"
| "foldE f (x # xs) s = (case f x s of Inl e \<Rightarrow> Inl e | Inr s' \<Rightarrow> foldE f xs s')"

lemma mapE_cong [fundef_cong]:
  "xs = ys \<Longrightarrow> (\<And>x. x \<in> set ys \<Longrightarrow> f x = g x) \<Longrightarrow> mapE f xs = mapE g ys"
  by (induction ys arbitrary: xs) (auto split: sum.splits)

lemma foldE_cong [fundef_cong]:
  "xs = ys \<Longrightarrow> s = t \<Longrightarrow> (\<And>x u. x \<in> set ys \<Longrightarrow> f x u = g x u) \<Longrightarrow>
   foldE f xs s = foldE g ys t"
  by (induction ys arbitrary: xs s t) (auto split: sum.splits)

text \<open>
  Writing a new value at the place a resolved field refers to: the path leads through
  the pointers around the struct and through embedded structs.
\<close>

fun setPath :: "gval \<Rightarrow> nat list \<Rightarrow> gval \<Rightarrow> gval" where
  "setPath v [] new = new"
| "setPath (GPtr (Some x)) (i # path) new = GPtr (Some (setPath x (i # path) new))"
| "setPath (GStruct vs) (i # path) new = GStruct (vs[i := setPath (vs ! i) path new])"
| "setPath v (i # path) new = v"

text \<open>\<open>t.Name()\<close>: the name of a named type without its package.\<close>

fun type_Name :: "rtype \<Rightarrow> string" where
  "type_Name (Basic n k) = last (Split n CHR ''.'')"
| "type_Name (PtrT n t) = last (Split n CHR ''.'')"
| "type_Name (SliceT n t) = last (Split n CHR ''.'')"
| "type_Name (ArrayT n l t) = last (Split n CHR ''.'')"
| "type_Name (ChanT n t) = last (Split n CHR ''.'')"
| "type_Name (MapT n k t) = last (Split n CHR ''.'')"
| "type_Name (FuncT n) = last (Split n CHR ''.'')"
| "type_Name (InterfaceT n k) = last (Split n CHR ''.'')"
| "type_Name (StructT n fs) = last (Split n CHR ''.'')"

text \<open>The entries of a map as a Go map holds them: one value for each key.\<close>

definition entries :: "gval \<Rightarrow> (string \<times> gval) list" where
  "entries v = (case v of GMap (Some kvs) \<Rightarrow> kvs | _ \<Rightarrow> [])"

definition elements :: "gval \<Rightarrow> gval list" where
  "elements v = (case v of GSlice (Some xs) \<Rightarrow> xs | _ \<Rightarrow> [])"

text \<open>\<open>reflect.ValueOf(v.Interface())\<close> for a Value of kind interface.\<close>

definition unwrapInterface :: "Value \<Rightarrow> Value" where
  "unwrapInterface v =
     (case v of
        Val t (GIface x) a r \<Rightarrow> if Kind t = KInterface then ValueOf x else v
      | _ \<Rightarrow> v)"

text \<open>\<open>to.SetMapIndex(k, t)\<close> on the entries of the map: the zero Value deletes the key.\<close>

definition SetMapIndex ::
  "rtype \<Rightarrow> rtype \<Rightarrow> string \<Rightarrow> Value \<Rightarrow> (string \<times> gval) list \<Rightarrow> error + (string \<times> gval) list" where
  "SetMapIndex mapType keyType k elem m =
     (case mapType of
        MapT n kt et \<Rightarrow>
          if \<not> directlyAssignable kt keyType \<and> \<not> implements kt keyType
            then Inl (Panic (''reflect.Value.SetMapIndex: value of type '' @ type_String keyType
                             @ '' is not assignable to type '' @ type_String kt))
          else
            (case elem of
               ZeroValue \<Rightarrow> Inr (AList.delete k m)
             | Val t v a r \<Rightarrow>
                 (case assignTo t v et of
                    Inl e \<Rightarrow> Inl e
                  | Inr v' \<Rightarrow> Inr (AList.update k v' m)))
      | _ \<Rightarrow> Inl (Panic ''reflect: call of reflect.Value.SetMapIndex on non-map Value''))"

text \<open>The value of an entry of a \<open>map[string]interface{}\<close> as \<open>reflect.ValueOf\<close> sees it.\<close>

definition valueOfEntry :: "gval \<Rightarrow> Value" where
  "valueOfEntry v = (case v of GIface x \<Rightarrow> ValueOf x | _ \<Rightarrow> ZeroValue)"

text \<open>\<open>v.Interface().(map[string]interface{})\<close>, giving the entries of the map.\<close>

definition assertMapStringAny :: "Value \<Rightarrow> error + (string \<times> gval) list" where
  "assertMapStringAny v =
     (case unwrapInterface v of
        ZeroValue \<Rightarrow>
          Inl (Panic ''interface conversion: interface {} is nil, not map[string]interface {}'')
      | Val t g a r \<Rightarrow>
          if t = mapStringAnyT then Inr (entries g)
          else Inl (Panic (''interface conversion: interface {} is '' @ type_String t
                           @ '', not map[string]interface {}'')))"

fun vsize :: "Value \<Rightarrow> nat" where
  "vsize ZeroValue = 0"
| "vsize (Val t v a r) = size v"

definition csize :: "(string \<times> gval) list \<Rightarrow> nat" where
  "csize kvs = size_list (\<lambda>kv. size (snd kv)) kvs"

lemma size_elements: "x \<in> set (elements v) \<Longrightarrow> size x < size v"
  by (auto simp: elements_def split: gval.splits option.splits dest!: size_list_estimation'[where f=size and y="size x"] )

lemma csize_mem: "(k, x) \<in> set kvs \<Longrightarrow> size x < csize kvs"
  unfolding csize_def by (induction kvs) auto

lemma csize_entries: "csize (entries v) \<le> size v"
proof -
  have "size_list (\<lambda>kv. size (snd kv)) kvs \<le> size_list (size_prod (\<lambda>x. 0) size) kvs" for kvs :: "(string \<times> gval) list"
    by (induction kvs) auto
  then show ?thesis
    by (auto simp: entries_def csize_def split: gval.splits option.splits intro: le_SucI)
qed

lemma size_entries: "(k, x) \<in> set (entries v) \<Longrightarrow> size x < size v"
  using csize_mem csize_entries by (meson less_le_trans)

lemma vsize_ValueOf: "vsize (ValueOf x) \<le> size (GIface x)"
  by (cases x) auto

lemma vsize_unwrap: "vsize (unwrapInterface v) \<le> vsize v"
  using vsize_ValueOf by (auto simp: unwrapInterface_def split: Value.splits gval.splits)

lemma vsize_valueOfEntry: "vsize (valueOfEntry v) \<le> size v"
  using vsize_ValueOf by (auto simp: valueOfEntry_def split: gval.splits)

lemma csize_map_of: "map_of cfg k = Some v \<Longrightarrow> size v < csize cfg"
  by (auto dest!: map_of_SomeD csize_mem)

lemma assertMap_size: "assertMapStringAny v = Inr kvs \<Longrightarrow> csize kvs \<le> vsize v"
  using vsize_unwrap[of v] csize_entries
  by (auto simp: assertMapStringAny_def split: Value.splits if_splits) (metis le_trans vsize.simps(2))

definition isScalarElemKind :: "kind \<Rightarrow> bool" where
  "isScalarElemKind k =
     (k = KInterface \<or> isIntKind k \<or> isUintKind k \<or> isFloatKind k \<or> k = KBool \<or> k = KString)"

definition fromElemType :: "Value \<Rightarrow> rtype" where
  "fromElemType v = (case Elem (vtyp v) of Inr t \<Rightarrow> t | Inl e \<Rightarrow> anyT)"

definition fromKeyType :: "Value \<Rightarrow> rtype" where
  "fromKeyType v = (case vtyp v of MapT n k t \<Rightarrow> k | _ \<Rightarrow> stringT)"

definition NewValue :: "rtype \<Rightarrow> Value" where
  "NewValue t = Val (PtrT [] t) (GPtr (Some (zero t))) False RW"

definition pointee :: "rtype \<Rightarrow> gval \<Rightarrow> error + Value" where
  "pointee t p = (case p of GPtr (Some x) \<Rightarrow> Inr (Val t x True RW)
                  | _ \<Rightarrow> Inl (Panic ''value is not of its type''))"

definition pointeeOf :: "rtype \<Rightarrow> (rtype \<times> gval) option \<Rightarrow> error + Value" where
  "pointeeOf t p = (case p of Some (pt, GPtr (Some x)) \<Rightarrow> Inr (Val t x True RW)
                  | _ \<Rightarrow> Inl (Panic ''value is not of its type''))"

lemma vval_vsize: "ValueKind v \<noteq> KInvalid \<Longrightarrow> size (vval v) = vsize v"
  by (cases v) simp_all

lemma term_slice:
  "ValueKind (unwrapInterface f) = KSlice \<Longrightarrow> x \<in> set (elements (vval (unwrapInterface f)))
   \<Longrightarrow> size x < vsize f"
  using size_elements[of x "vval (unwrapInterface f)"] vval_vsize[of "unwrapInterface f"]
        vsize_unwrap[of f]
  by simp

lemma term_map:
  "ValueKind (unwrapInterface f) = KMap \<Longrightarrow> kv \<in> set (entries (vval (unwrapInterface f)))
   \<Longrightarrow> size (snd kv) < vsize f"
  using size_entries[of "fst kv" "snd kv" "vval (unwrapInterface f)"]
        vval_vsize[of "unwrapInterface f"] vsize_unwrap[of f]
  by simp

lemma term_struct:
  "assertMapStringAny (unwrapInterface f) = Inr c \<Longrightarrow> 2 * csize c < Suc (2 * vsize f)"
  using assertMap_size[of "unwrapInterface f" c] vsize_unwrap[of f] by simp

lemma term_map_struct:
  "ValueKind (unwrapInterface f) = KMap \<Longrightarrow> kv \<in> set (entries (vval (unwrapInterface f)))
   \<Longrightarrow> assertMapStringAny (Val t (snd kv) a r) = Inr c
   \<Longrightarrow> 2 * csize c < Suc (2 * vsize f)"
  using assertMap_size[of "Val t (snd kv) a r" c] term_map[of f kv] by simp

lemma term_field:
  "map_of cfg k = Some v \<Longrightarrow> Suc (2 * vsize (valueOfEntry v)) < 2 * csize cfg"
  using csize_map_of[of cfg k v] vsize_valueOfEntry[of v] by simp

text \<open>
  setObject returns the new content of the place \<open>to\<close> refers to, setFieldConfig the
  plugin \<open>p\<close> with the fields written. Where the source returns an error after it has
  written part of the destination, the model returns the error alone. The keys of a map
  are visited in the order of its entries; Go visits them in no fixed order, which
  decides only which of several failures is met first.
\<close>

function setObject :: "library \<Rightarrow> Value \<Rightarrow> Value \<Rightarrow> rtype \<Rightarrow> error + gval"
  and setFieldConfig ::
    "library \<Rightarrow> (string \<times> gval) list \<Rightarrow> (rtype \<times> gval) option \<Rightarrow> error + (rtype \<times> gval) option"
where
  "setObject L from0 to0 destType0 =
     (let from = unwrapInterface from0 in
      if ValueKind from = KBool then setObject_Bool from to0 destType0
      else if ValueKind from = KString then setObject_String L from to0 destType0
      else if isIntKind (ValueKind from) then setObject_Int from to0 destType0
      else if isUintKind (ValueKind from) then setObject_Uint from to0 destType0
      else if isFloatKind (ValueKind from) then setObject_Float from to0 destType0
      else if ValueKind from = KSlice then
        (case (if Kind destType0 = KPtr
                 then (case Elem destType0 of
                         Inl e \<Rightarrow> Inl e
                       | Inr dt \<Rightarrow>
                          (case Value_Elem to0 of
                             Inl e \<Rightarrow> Inl e
                           | Inr t \<Rightarrow> Inr (dt, t, True)))
               else Inr (destType0, to0, False)) of
           Inl e \<Rightarrow> Inl e
         | Inr (destType, to, viaPtr) \<Rightarrow>
             if Kind destType \<noteq> KSlice
               then Inl (Errorf ''error setting slice field into %s''
                           [kind_String (Kind destType)] None)
             else
               (case Elem destType of
                  Inl e \<Rightarrow> Inl e
                | Inr et \<Rightarrow>
                   (case mapE (\<lambda>x. case setObject L (Val (fromElemType from) x True RW)
                                            (Val et (zero et) True RW) et of
                                      Inl e \<Rightarrow> Inl (wrapErr ''couldn't set slice element: %w'' [] e)
                                    | Inr y \<Rightarrow> Inr y)
                           (elements (vval from)) of
                      Inl e \<Rightarrow> Inl e
                    | Inr d \<Rightarrow>
                        wrapPtr viaPtr (Set to (Val destType (GSlice (Some d)) False RW)))))
      else if ValueKind from = KMap then
        (case (if Kind destType0 = KPtr
                 then (case Elem destType0 of
                         Inl e \<Rightarrow> Inl e
                       | Inr dt \<Rightarrow>
                          (case Set to0 (NewValue dt) of
                             Inl e \<Rightarrow> Inl e
                           | Inr p \<Rightarrow> Inr (dt, Val dt (zero dt) True RW, True)))
               else Inr (destType0, to0, False)) of
           Inl e \<Rightarrow> Inl e
         | Inr (destType, to, viaPtr) \<Rightarrow>
             wrapPtr viaPtr
               (if Kind destType = KStruct then
                  (case assertMapStringAny from of
                     Inl e \<Rightarrow> Inl e
                   | Inr cfg \<Rightarrow>
                      (case setFieldConfig L cfg (New destType) of
                         Inl err \<Rightarrow> Inl err
                       | Inr structPtr \<Rightarrow>
                          (case pointeeOf destType structPtr of
                             Inl e \<Rightarrow> Inl e
                           | Inr sv \<Rightarrow> Set to sv)))
                else if Kind destType = KMap then
                  (case destType of
                     MapT n kt et \<Rightarrow>
                       if Kind kt \<noteq> KString then Inl (Panic ''expecting string types for maps'')
                       else
                         (case Set to (Val destType (GMap (Some [])) False RW) of
                            Inl e \<Rightarrow> Inl e
                          | Inr made \<Rightarrow>
                              (case
                                 (if isScalarElemKind (Kind et) then
                                    foldE (\<lambda>kv m. SetMapIndex destType (fromKeyType from) (fst kv)
                                                    (unwrapInterface
                                                       (Val (fromElemType from) (snd kv) False RW)) m)
                                      (entries (vval from)) []
                                  else if Kind et = KSlice then
                                    foldE (\<lambda>kv m.
                                             case setObject L (Val (fromElemType from) (snd kv) False RW)
                                                    (NewValue et) (PtrT [] et) of
                                               Inl e \<Rightarrow> Inl (wrapErr ''could not set slice: %w'' [] e)
                                             | Inr sliceptr \<Rightarrow>
                                                 (case pointee et sliceptr of
                                                    Inl e \<Rightarrow> Inl e
                                                  | Inr sl \<Rightarrow>
                                                      SetMapIndex destType (fromKeyType from)
                                                        (fst kv) sl m))
                                      (entries (vval from)) []
                                  else if Kind et = KStruct then
                                    foldE (\<lambda>kv m.
                                             case assertMapStringAny
                                                    (Val (fromElemType from) (snd kv) False RW) of
                                               Inl e \<Rightarrow> Inl e
                                             | Inr cfg \<Rightarrow>
                                                (case setFieldConfig L cfg (New et) of
                                                   Inl e \<Rightarrow> Inl (wrapErr ''could not set struct: %w'' [] e)
                                                 | Inr structPtr \<Rightarrow>
                                                     (case pointeeOf et structPtr of
                                                        Inl e \<Rightarrow> Inl e
                                                      | Inr sv \<Rightarrow>
                                                          SetMapIndex destType (fromKeyType from)
                                                            (fst kv) sv m)))
                                      (entries (vval from)) []
                                  else Inl (Errorf ''can't write settings into map of type map[string]%s''
                                              [kind_String (Kind et)] None)) of
                                 Inl e \<Rightarrow> Inl e
                               | Inr m \<Rightarrow> Inr (GMap (Some m))))
                   | _ \<Rightarrow> Inl (Panic ''value is not of its type''))
                else Inl (Errorf ''Cannot load map into %q'' [kind_String (Kind destType)] None)))
      else Inl (Errorf ''cannot convert unknown type %s to %s''
                  [kind_String (ValueKind from), type_String destType0] None))"
| "setFieldConfig L cfg p =
     (case (if ValueKind (ValueOf p) = KPtr then Value_Elem (ValueOf p) else Inr (ValueOf p)) of
        Inl e \<Rightarrow> Inl e
      | Inr destStruct \<Rightarrow>
         (case foldE
                 (\<lambda>k cur.
                    case getFieldByName cur k of
                      Inl e \<Rightarrow> Inl e
                    | Inr (destField, destFieldType, path) \<Rightarrow>
                       (case destFieldType of
                          None \<Rightarrow> Inr cur
                        | Some ft \<Rightarrow>
                           if \<not> IsValid destField then Inr cur
                           else if \<not> CanSet destField then
                             (if \<not> canAddr destField
                                then Inl (Panic ''reflect.Value.Addr of unaddressable value'')
                              else Inl (Errorf ''cannot set %s (%s)'' [k, type_Name ft] None))
                           else
                             (case map_of cfg k of
                                None \<Rightarrow> Inr cur
                              | Some v \<Rightarrow>
                                 (case setObject L (valueOfEntry v) destField ft of
                                    Inl err \<Rightarrow> Inl (wrapErr ''Could not set field %q: %w'' [k] err)
                                  | Inr new \<Rightarrow>
                                      Inr (Val (vtyp cur) (setPath (vval cur) path new)
                                             (canAddr cur) (flagRO cur))))))
                 (sort (remdups (map fst cfg))) destStruct of
            Inl e \<Rightarrow> Inl e
          | Inr final \<Rightarrow>
              Inr (case p of
                     Some (t, GPtr (Some x)) \<Rightarrow> Some (t, GPtr (Some (vval final)))
                   | _ \<Rightarrow> p)))"
  by pat_completeness auto


termination
  apply (relation "measure (\<lambda>x. case x of
            Inl (L, from0, to0, dt) \<Rightarrow> 2 * vsize from0 + 1
          | Inr (L, cfg, p) \<Rightarrow> 2 * csize cfg)")
  apply (simp_all add: term_slice term_map term_struct term_map_struct term_field)
  done


declare setObject.simps [simp del] setFieldConfig.simps [simp del]

section \<open>The parser of durations\<close>

text \<open>
  \<open>time.ParseDuration\<close> of the Go library, which the binder calls: a sign, then numbers
  with a unit each, summed in nanoseconds in 64 bits. The library multiplies the digits
  after the point by the unit in floating point; here the product is exact.
\<close>

definition digitVal :: "char \<Rightarrow> nat" where
  "digitVal c = of_char c - 48"

definition leadingInt :: "string \<Rightarrow> nat option \<times> string" where
  "leadingInt s =
     (fold (\<lambda>c acc. case acc of
                       None \<Rightarrow> None
                     | Some x \<Rightarrow>
                         if x > 2 ^ 63 div 10 then None
                         else if x * 10 + digitVal c > 2 ^ 63 then None
                         else Some (x * 10 + digitVal c))
           (takeWhile isDigit s) (Some 0),
      dropWhile isDigit s)"

definition leadingFraction :: "string \<Rightarrow> nat \<times> nat \<times> string" where
  "leadingFraction s =
     (case fold (\<lambda>c (x, scale, overflow).
                   if overflow then (x, scale, overflow)
                   else if x > (2 ^ 63 - 1) div 10 then (x, scale, True)
                   else if x * 10 + digitVal c > 2 ^ 63 then (x, scale, True)
                   else (x * 10 + digitVal c, scale * 10, False))
                (takeWhile isDigit s) (0, 1, False) of
        (x, scale, overflow) \<Rightarrow> (x, scale, dropWhile isDigit s))"

definition unitMap :: "string \<Rightarrow> nat option" where
  "unitMap u =
     (if u = ''ns'' then Some 1
      else if u = ''us'' then Some 1000
      else if u = [CHR 0xC2, CHR 0xB5, CHR ''s''] then Some 1000
      else if u = [CHR 0xCE, CHR 0xBC, CHR ''s''] then Some 1000
      else if u = ''ms'' then Some 1000000
      else if u = ''s'' then Some 1000000000
      else if u = ''m'' then Some 60000000000
      else if u = ''h'' then Some 3600000000000
      else None)"

definition isNumberChar :: "char \<Rightarrow> bool" where
  "isNumberChar c = (c = CHR ''.'' \<or> isDigit c)"

lemma length_dropWhile_less: "takeWhile P xs \<noteq> [] \<Longrightarrow> length (dropWhile P xs) < length xs"
  by (cases xs) (auto simp: le_imp_less_Suc length_dropWhile_le split: if_splits)

lemma leadingFraction_length: "length (snd (snd (leadingFraction s))) \<le> length s"
  by (simp add: leadingFraction_def length_dropWhile_le split: prod.splits)

text \<open>
  One number of a duration: the integer before the point (\<open>None\<close> when it overflows),
  the digits after the point with their scale, what follows the number, and whether
  digits were read before and after the point.
\<close>

definition scanNumber :: "string \<Rightarrow> nat option \<times> nat \<times> nat \<times> string \<times> bool \<times> bool" where
  "scanNumber s =
     (let v = fst (leadingInt s);
          s1 = snd (leadingInt s);
          pre = (length s \<noteq> length s1)
      in
      if s1 \<noteq> [] \<and> hd s1 = CHR ''.'' then
        (case leadingFraction (tl s1) of
           (f, scale, s2) \<Rightarrow> (v, f, scale, s2, pre, length (tl s1) \<noteq> length s2))
      else (v, 0, 1, s1, pre, False))"

lemma scanNumber_length:
  "scanNumber s = (v, f, scale, s2, pre, post) \<Longrightarrow> length s2 \<le> length s"
proof -
  assume a: "scanNumber s = (v, f, scale, s2, pre, post)"
  let ?s1 = "snd (leadingInt s)"
  have b: "length ?s1 \<le> length s" by (simp add: leadingInt_def length_dropWhile_le)
  show ?thesis
  proof (cases "?s1 \<noteq> [] \<and> hd ?s1 = CHR ''.''")
    case True
    with a have "s2 = snd (snd (leadingFraction (tl ?s1)))"
      by (auto simp: scanNumber_def Let_def split: prod.splits)
    then have "length s2 \<le> length (tl ?s1)" by (simp only: leadingFraction_length)
    with b show ?thesis by simp
  next
    case False
    with a have "s2 = ?s1" by (auto simp: scanNumber_def Let_def)
    with b show ?thesis by simp
  qed
qed

function parseUnits :: "string \<Rightarrow> string \<Rightarrow> nat \<Rightarrow> error + nat" where
  "parseUnits orig s d =
     (if s = [] then Inr d
      else if \<not> isNumberChar (hd s)
        then Inl (Errorf ''time: invalid duration %s'' [orig] None)
      else
        (case scanNumber s of
           (None, f, scale, s2, pre, post) \<Rightarrow>
             Inl (Errorf ''time: invalid duration %s'' [orig] None)
         | (Some v, f, scale, s2, pre, post) \<Rightarrow>
            if \<not> pre \<and> \<not> post
              then Inl (Errorf ''time: invalid duration %s'' [orig] None)
            else if takeWhile (\<lambda>c. \<not> isNumberChar c) s2 = []
              then Inl (Errorf ''time: missing unit in duration %s'' [orig] None)
            else
              (case unitMap (takeWhile (\<lambda>c. \<not> isNumberChar c) s2) of
                 None \<Rightarrow>
                   Inl (Errorf ''time: unknown unit %s in duration %s''
                          [takeWhile (\<lambda>c. \<not> isNumberChar c) s2, orig] None)
               | Some unit \<Rightarrow>
                   if v > 2 ^ 63 div unit
                     then Inl (Errorf ''time: invalid duration %s'' [orig] None)
                   else if f > 0
                          \<and> v * unit + nat \<lfloor>real f * (real unit / real scale)\<rfloor> > 2 ^ 63
                     then Inl (Errorf ''time: invalid duration %s'' [orig] None)
                   else if (d + (if f > 0
                                   then v * unit + nat \<lfloor>real f * (real unit / real scale)\<rfloor>
                                 else v * unit)) mod 2 ^ 64 > 2 ^ 63
                     then Inl (Errorf ''time: invalid duration %s'' [orig] None)
                   else parseUnits orig (dropWhile (\<lambda>c. \<not> isNumberChar c) s2)
                          ((d + (if f > 0
                                   then v * unit + nat \<lfloor>real f * (real unit / real scale)\<rfloor>
                                 else v * unit)) mod 2 ^ 64))))"
  by pat_completeness auto
termination
  apply (relation "measure (\<lambda>(orig, s, d). length s)")
   apply simp
  apply (simp only: in_measure prod.case)
  apply hypsubst
  apply (frule scanNumber_length[OF sym])
  apply (frule length_dropWhile_less)
  apply linarith
  done

definition time_ParseDuration :: "string \<Rightarrow> error + int" where
  "time_ParseDuration orig =
     (let neg = (orig \<noteq> [] \<and> hd orig = CHR ''-'');
          s = (if orig \<noteq> [] \<and> (hd orig = CHR ''-'' \<or> hd orig = CHR ''+'') then tl orig else orig)
      in
      if s = ''0'' then Inr 0
      else if s = [] then Inl (Errorf ''time: invalid duration %s'' [orig] None)
      else
        (case parseUnits orig s 0 of
           Inl e \<Rightarrow> Inl e
         | Inr d \<Rightarrow>
             if neg then Inr (- int d)
             else if d > 2 ^ 63 - 1 then Inl (Errorf ''time: invalid duration %s'' [orig] None)
             else Inr (int d)))"

declare parseUnits.simps [simp del]

text \<open>A plugin with one field of type duration, and the library with the parser above.\<close>

definition durationPlugin :: rtype where
  "durationPlugin =
     StructT ''demo.Plugin'' [StructField ''Timeout'' (Basic ''config.Duration'' KInt64) [] False]"

definition goLibrary :: "(string \<Rightarrow> error + int) \<Rightarrow> (int \<Rightarrow> string) \<Rightarrow> (int \<Rightarrow> string) \<Rightarrow> library" where
  "goLibrary parseBytes printDuration printSize =
     \<lparr>ParseDuration = time_ParseDuration, ParseStrictBytes = parseBytes,
      Duration_String = printDuration, Size_MarshalText = printSize\<rparr>"

text \<open>The body of the loop of setFieldConfig, for one key.\<close>

definition setField :: "library \<Rightarrow> (string \<times> gval) list \<Rightarrow> string \<Rightarrow> Value \<Rightarrow> error + Value" where
  "setField L cfg =
     (\<lambda>k cur.
        case getFieldByName cur k of
          Inl e \<Rightarrow> Inl e
        | Inr (destField, destFieldType, path) \<Rightarrow>
           (case destFieldType of
              None \<Rightarrow> Inr cur
            | Some ft \<Rightarrow>
               if \<not> IsValid destField then Inr cur
               else if \<not> CanSet destField then
                 (if \<not> canAddr destField
                    then Inl (Panic ''reflect.Value.Addr of unaddressable value'')
                  else Inl (Errorf ''cannot set %s (%s)'' [k, type_Name ft] None))
               else
                 (case map_of cfg k of
                    None \<Rightarrow> Inr cur
                  | Some v \<Rightarrow>
                     (case setObject L (valueOfEntry v) destField ft of
                        Inl err \<Rightarrow> Inl (wrapErr ''Could not set field %q: %w'' [k] err)
                      | Inr new \<Rightarrow>
                          Inr (Val (vtyp cur) (setPath (vval cur) path new)
                                 (canAddr cur) (flagRO cur))))))"

text \<open>A plugin with an unexported field and an unexported field with a toml tag.\<close>

definition privatePlugin :: rtype where
  "privatePlugin =
     StructT ''demo.Private''
       [StructField ''timeout'' (Basic ''int'' KInt) [] False,
        StructField ''secret'' (Basic ''string'' KString) [(''toml'', ''secret_key'')] False]"

(*DEFS2*)
(*DEFS*)

section \<open>Properties of schema derivation\<close>

lemma isZero_zero: "isZero (zero t)" and isZero_zeros: "list_all isZero (zeros fs)"
  by (induction t and fs rule: zero_zeros.induct)
     (simp_all add: list_all_length nth_Cons split: nat.splits)

text \<open>The recursive calls of getFieldConfig, on \<open>reflect.New(t)\<close>, run the loop with no values.\<close>

lemma getFieldConfig_New:
  "Kind t = KStruct \<Longrightarrow>
   getFieldConfig (New t) cfg = getFieldConfig_loop (structFields t) None cfg"
  by (cases t) (simp_all add: getFieldConfig_def New_def isZero_zeros stripPtr.simps)

lemma schemaKnown_update:
  "schemaKnown cfg \<Longrightarrow> knownTypes fc \<Longrightarrow> schemaKnown (AList.update k fc cfg)"
  unfolding schemaKnown_def by (induction cfg) auto

lemma getFieldTypeFromStructField_known:
  "getFieldTypeFromStructField ft = Inr ty \<Longrightarrow> ty \<noteq> FieldTypeUnknown"
  by (auto simp: getFieldTypeFromStructField_def Let_def split: if_splits)

lemma known_iff:
  "ty \<noteq> FieldTypeUnknown \<longleftrightarrow>
   ty \<in> {FieldTypeString, FieldTypeInteger, FieldTypeFloat, FieldTypeBool,
         FieldTypeDuration, FieldTypeSize, FieldTypeInterface, FieldTypeSlice,
         FieldTypeMap, FieldTypeFieldConfig}"
  by (cases ty) simp_all

lemma knownTypes_mk:
  "ty \<noteq> FieldTypeUnknown \<Longrightarrow> (\<And>fs. sub = Some fs \<Longrightarrow> schemaKnown fs) \<Longrightarrow>
   knownTypes (FieldConfig ty d f r st sub)"
  by (cases ty; cases sub) (simp_all add: schemaKnown_def)

lemma loop_known:
  "getFieldConfig_loop fs vals cfg = Inr cfg' \<Longrightarrow> schemaKnown cfg \<Longrightarrow> schemaKnown cfg'"
proof (induction "size_list size fs" arbitrary: fs vals cfg cfg' rule: less_induct)
  case less
  show ?case
  proof (cases fs)
    case Nil
    with less.prems show ?thesis by simp
  next
    case (Cons ft fts)
    have tail: "getFieldConfig_loop fts r c = Inr c' \<Longrightarrow> schemaKnown c \<longrightarrow> schemaKnown c'"
      for r c c'
      using less.hyps[of fts r c c'] Cons by simp
    have sub: "getFieldConfig_loop (structFields t) None c = Inr c' \<Longrightarrow>
               getSubTypeType (Type ft) = Inr t \<longrightarrow> schemaKnown c \<longrightarrow> schemaKnown c'"
      for t c c'
      using less.hyps[of "structFields t" None c c'] size_sub_fields[of ft t fts] Cons by simp
    have nil: "schemaKnown []" by (simp add: schemaKnown_def)
    have obj: "schemaKnown s \<Longrightarrow> knownTypes (FieldConfig FieldTypeFieldConfig d f r st (Some s))"
      for s d f r st by (simp add: schemaKnown_def)
    have k1: "ty \<noteq> FieldTypeUnknown \<Longrightarrow> schemaKnown s \<Longrightarrow>
              knownTypes (FieldConfig ty d f r st (Some s))" for ty s d f r st
      by (rule knownTypes_mk) simp_all
    have k2: "ty \<noteq> FieldTypeUnknown \<Longrightarrow> 
              knownTypes (FieldConfig ty d f r st None)" for ty d f r st
      by (rule knownTypes_mk) simp_all
    from less.prems(1) Cons
    have "getFieldConfig_loop (ft # fts) vals cfg = Inr cfg'" by simp
    then show ?thesis
      using less.prems(2) nil
      apply (simp only: getFieldConfig_loop.simps(2) Let_def)
      apply (simp split: if_splits sum.splits del: knownTypes.simps)
      apply (auto simp del: knownTypes.simps dest!: tail sub getFieldTypeFromStructField_known
                  simp: schemaKnown_update obj k1 k2)
      done
  qed
qed
lemma getFieldConfig_known:
  assumes "getFieldConfig p cfg = Inr cfg'" and "schemaKnown cfg"
  shows "schemaKnown cfg'"
  using assms
  apply (auto simp: getFieldConfig_def split: option.splits sum.splits if_splits Value.splits
                 gval.splits)
   apply (erule loop_known, assumption)+
  done

lemma unknown_not_struct:
  "getFieldType t = FieldTypeUnknown \<Longrightarrow> Kind (deref t) \<noteq> KStruct"
  by (auto simp: getFieldType_def Let_def split: kind.splits if_splits)

lemma loop_head_aborts:
  assumes "reachesTypeMapping ft" and "getFieldType (Type ft) = FieldTypeUnknown"
  shows "getFieldConfig_loop (ft # fts) vals cfg =
           Inl (Panic (''unknown type, name: '' @ Name ft @ '', string: ''
                       @ type_String (Type ft)))"
  using assms unknown_not_struct[of "Type ft"]
  by (auto simp: reachesTypeMapping_def getFieldTypeFromStructField_def Let_def)

lemma loop_aborts:
  assumes "reachesTypeMapping ft" and "getFieldType (Type ft) = FieldTypeUnknown"
  shows "isl (getFieldConfig_loop (pre @ ft # fts) vals cfg)"
proof (induction pre arbitrary: vals cfg)
  case Nil
  show ?case using loop_head_aborts[OF assms] by simp
next
  case (Cons a pre)
  show ?case
    apply (simp only: append_Cons getFieldConfig_loop.simps(2) Let_def)
    apply (auto split: sum.splits simp: Cons.IH)
    done
qed

lemmas schema_eval =
  New_def getFieldConfig_def stripPtr.simps Let_def toLowerChar_def isUpper_def Tag_Get_def
  Tag_Lookup_def deref_def isInternalStructFieldType_def getFieldTypeFromStructField_def
  getFieldType_def hasSubType_def getSubTypeType_def reachesTypeMapping_def schemaKnown_def

text \<open>
  C6, as stated, fails: a field of function type is exported, carries no toml tag, and
  getFieldType maps its kind to the unknown field type, yet derivation does not abort:
  getFieldConfig skips the field and completes with the empty schema.
\<close>

theorem getFieldConfig_skips_func_field:
  "getFieldType (Type (StructField ''Handler'' (FuncT []) [] False)) = FieldTypeUnknown
   \<and> isUpper (hd (Name (StructField ''Handler'' (FuncT []) [] False)))
   \<and> Tag_Lookup (Tag (StructField ''Handler'' (FuncT []) [] False)) ''toml'' = None
   \<and> getFieldConfig (New (StructT ''demo.Plugin'' [StructField ''Handler'' (FuncT []) [] False])) []
       = Inr []"
  by (simp add: schema_eval)

text \<open>
  C6, amended: derivation aborts with a panic for every field that reaches the translation
  of its type (exported by the test on its first letter, not excluded by its toml tag, not
  skipped as a function or an interface) and whose type getFieldType maps to the unknown
  field type, wherever the field stands in the struct and whatever the instance holds;
  and every FieldConfig of a schema that a completed derivation returns, at every depth,
  has a type of the enumeration string, integer, float, bool, duration, size, any, array,
  map, object.
\<close>

theorem getFieldConfig_fails_loudly:
  "(reachesTypeMapping ft \<and> getFieldType (Type ft) = FieldTypeUnknown \<longrightarrow>
      isl (getFieldConfig
             (Some (PtrT [] (StructT n (pre @ ft # fts)), GPtr (Some (GStruct vs)))) cfg))
   \<and> (getFieldConfig p [] = Inr cfg' \<longrightarrow> schemaKnown cfg')"
proof (intro conjI impI)
  assume "reachesTypeMapping ft \<and> getFieldType (Type ft) = FieldTypeUnknown"
  then have "isl (getFieldConfig_loop (pre @ ft # fts)
                    (if isZero (GStruct vs) then None else Some vs) cfg)"
    using loop_aborts by blast
  then show "isl (getFieldConfig
             (Some (PtrT [] (StructT n (pre @ ft # fts)), GPtr (Some (GStruct vs)))) cfg)"
    by (simp add: getFieldConfig_def stripPtr.simps)
next
  assume "getFieldConfig p [] = Inr cfg'"
  then show "schemaKnown cfg'"
    by (rule getFieldConfig_known) (simp add: schemaKnown_def)
qed

text \<open>
  C6, witness: a struct with a complex128 field aborts; a struct of a string and a slice
  of strings completes with known types.
\<close>

theorem getFieldConfig_fails_loudly_witness:
  "reachesTypeMapping (StructField ''Ratio'' (Basic ''complex128'' KComplex128) [] False)
   \<and> getFieldType (Type (StructField ''Ratio'' (Basic ''complex128'' KComplex128) [] False))
       = FieldTypeUnknown
   \<and> isl (getFieldConfig
            (Some (PtrT [] (StructT ''demo.A''
                     ([StructField ''Name'' (Basic ''string'' KString) [] False]
                      @ StructField ''Ratio'' (Basic ''complex128'' KComplex128) [] False # [])),
                   GPtr (Some (GStruct [GString ''x'', GUint 0])))) [])
   \<and> getFieldConfig
         (New (StructT ''demo.B''
            [StructField ''Name'' (Basic ''string'' KString) [(''toml'', ''nm'')] False,
             StructField ''Tags'' (SliceT [] (Basic ''string'' KString)) [] False])) []
       = Inr [(''Name'', FieldConfig FieldTypeString None [] False FieldTypeUnknown None),
              (''Tags'', FieldConfig FieldTypeSlice None [] False FieldTypeString None)]
   \<and> schemaKnown
        [(''Name'', FieldConfig FieldTypeString None [] False FieldTypeUnknown None),
         (''Tags'', FieldConfig FieldTypeSlice None [] False FieldTypeString None)]"
proof -
  have h: "reachesTypeMapping (StructField ''Ratio'' (Basic ''complex128'' KComplex128) [] False)
     \<and> getFieldType (Type (StructField ''Ratio'' (Basic ''complex128'' KComplex128) [] False))
       = FieldTypeUnknown"
    by (simp add: schema_eval)
  have e: "getFieldConfig
         (New (StructT ''demo.B''
            [StructField ''Name'' (Basic ''string'' KString) [(''toml'', ''nm'')] False,
             StructField ''Tags'' (SliceT [] (Basic ''string'' KString)) [] False])) []
       = Inr [(''Name'', FieldConfig FieldTypeString None [] False FieldTypeUnknown None),
              (''Tags'', FieldConfig FieldTypeSlice None [] False FieldTypeString None)]"
    by (simp add: schema_eval)
  show ?thesis
    using h e
      getFieldConfig_fails_loudly
        [of "StructField ''Ratio'' (Basic ''complex128'' KComplex128) [] False"
            "''demo.A''" "[StructField ''Name'' (Basic ''string'' KString) [] False]" "[]"
            "[GString ''x'', GUint 0]" "[]"
            "New (StructT ''demo.B''
            [StructField ''Name'' (Basic ''string'' KString) [(''toml'', ''nm'')] False,
             StructField ''Tags'' (SliceT [] (Basic ''string'' KString)) [] False])"
            "[(''Name'', FieldConfig FieldTypeString None [] False FieldTypeUnknown None),
              (''Tags'', FieldConfig FieldTypeSlice None [] False FieldTypeString None)]"]
    by blast
qed

section \<open>Properties of the naming rule\<close>

lemma up_not_low: "isUpper c \<Longrightarrow> \<not> isLower c \<and> \<not> isDigit c"
  by (auto simp: isUpper_def isLower_def isDigit_def)

lemma underscore_class [simp]:
  "\<not> isUpper CHR ''_''" "\<not> isLower CHR ''_''" "\<not> isDigit CHR ''_''"
  by (simp_all add: isUpper_def isLower_def isDigit_def)

lemma rac_spec: "replaceAllCapitals s = specInsert s"
proof (induction s rule: replaceAllCapitals.induct)
  case (3 c u rest)
  show ?case
  proof (cases "(isLower c \<or> isDigit c) \<and> isUpper u")
    case True
    then have "specInsert (u # rest) = u # specInsert rest"
      by (cases rest) (auto dest: up_not_low)
    with True 3 show ?thesis by simp
  next
    case False
    then have "replaceAllCapitals (c # u # rest) = c # replaceAllCapitals (u # rest)"
      by auto
    moreover from False have "specInsert (c # u # rest) = c # specInsert (u # rest)"
      by auto
    ultimately show ?thesis using "3.IH"(2)[OF False] by simp
  qed
qed simp_all

lemma specInsert_Cons:
  "xs \<noteq> [] \<Longrightarrow> specInsert (c # xs) =
     c # (if (isLower c \<or> isDigit c) \<and> isUpper (hd xs) then CHR ''_'' # specInsert xs
          else specInsert xs)"
  by (cases xs) simp_all

lemma specInsert_append:
  "xs \<noteq> [] \<Longrightarrow> ys \<noteq> [] \<Longrightarrow> specInsert (xs @ ys) =
     specInsert xs @ (if (isLower (last xs) \<or> isDigit (last xs)) \<and> isUpper (hd ys)
                      then CHR ''_'' # specInsert ys else specInsert ys)"
proof (induction xs rule: specInsert.induct)
  case 1
  then show ?case by simp
next
  case (2 c)
  then show ?case by (simp add: specInsert_Cons)
next
  case (3 c u rest)
  then show ?case by simp
qed

lemma rfc_hd: "\<exists>zs. replaceFirstCapital (a # s) = a # zs"
  by (cases "(a # s)" rule: replaceFirstCapital.cases) auto

lemma rfc_Nil [simp]: "replaceFirstCapital s = [] \<longleftrightarrow> s = []"
  using rfc_hd by (cases s) (simp, metis list.distinct(1))

lemma rfc_hd' [simp]: "s \<noteq> [] \<Longrightarrow> hd (replaceFirstCapital s) = hd s"
  using rfc_hd by (cases s) (simp, metis list.sel(1))

lemma wfl_tl: "wordsFollowLower (x # s) \<Longrightarrow> wordsFollowLower s"
  by (cases "x # s" rule: wordsFollowLower.cases) auto

lemma wfl_dropWhile: "wordsFollowLower s \<Longrightarrow> wordsFollowLower (dropWhile P s)"
  by (induction s) (auto dest: wfl_tl)

lemma rfc_spec:
  "wordsFollowLower s \<Longrightarrow> specInsert (replaceFirstCapital s) = specInsert s"
proof (induction s rule: replaceFirstCapital.induct)
  case (4 c u l rest)
  let ?tw = "takeWhile isLower (l # rest)" and ?dw = "dropWhile isLower (l # rest)"
  show ?case
  proof (cases "c \<noteq> CHR 0x0A \<and> isUpper u \<and> isLower l")
    case True
    then have cl: "isLower c \<or> isDigit c" using "4.prems" by simp
    have twne: "?tw \<noteq> []" using True by simp
    have ih: "specInsert (replaceFirstCapital ?dw) = specInsert ?dw"
      using "4.IH"(1)[OF True] wfl_dropWhile[OF wfl_tl[OF wfl_tl[OF "4.prems"]]] by simp
    have mid: "specInsert (?tw @ replaceFirstCapital ?dw) = specInsert (l # rest)"
    proof (cases "?dw = []")
      case True
      then have "?tw = l # rest" by (metis append_Nil2 takeWhile_dropWhile_id)
      with True show ?thesis by simp
    next
      case False
      have "specInsert (?tw @ replaceFirstCapital ?dw) =
            specInsert ?tw @ (if (isLower (last ?tw) \<or> isDigit (last ?tw)) \<and> isUpper (hd ?dw)
                      then CHR ''_'' # specInsert ?dw else specInsert ?dw)"
        using specInsert_append[OF twne, of "replaceFirstCapital ?dw"] False ih by simp
      also have "\<dots> = specInsert (?tw @ ?dw)"
        using specInsert_append[OF twne False] by simp
      finally show ?thesis by simp
    qed
    have "specInsert (replaceFirstCapital (c # u # l # rest)) =
          specInsert (c # CHR ''_'' # u # (?tw @ replaceFirstCapital ?dw))"
      using True by simp
    also have "\<dots> = c # CHR ''_'' # u # specInsert (?tw @ replaceFirstCapital ?dw)"
      using twne True by (simp add: specInsert_Cons up_not_low)
    also have "\<dots> = specInsert (c # u # l # rest)"
      using mid cl True by (simp add: up_not_low)
    finally show ?thesis .
  next
    case False
    obtain zs where zs: "replaceFirstCapital (u # l # rest) = u # zs"
      using rfc_hd by blast
    have ih: "specInsert (replaceFirstCapital (u # l # rest)) = specInsert (u # l # rest)"
      using "4.IH"(2)[OF False] wfl_tl[OF "4.prems"] by simp
    have "replaceFirstCapital (c # u # l # rest) = c # replaceFirstCapital (u # l # rest)"
      using False by auto
    then show ?thesis using ih zs by (simp add: specInsert_Cons)
  qed
qed simp_all


lemmas name_eval = toSnakeCase_def spec_toSnakeCase_def Tag_Lookup_def Tag_Get_def ToLower_def
  toLowerChar_def isUpper_def isLower_def isDigit_def

lemma Tag_Get_Lookup: "Tag_Lookup tg k = Some x \<Longrightarrow> Tag_Get tg k = x"
  by (simp add: Tag_Lookup_def Tag_Get_def)

lemma notEmbedded_step:
  assumes "\<not> (Kind (Type sf) = KStruct \<and> Anonymous sf)"
  shows "getFieldByName_fields (sf # fts) (v # vs) i a r fieldName =
     (if Tag_Get (Tag sf) ''toml'' = fieldName
            then Inr (Val (Type sf) v a (fieldFlag r sf), Some (Type sf), [i])
          else
            (case toSnakeCase (Name sf) sf of
               (name, ok) \<Rightarrow>
                 if ok \<and> name = fieldName then
                   (case isExported sf of
                      Inl e \<Rightarrow> Inl e
                    | Inr True \<Rightarrow> Inr (Val (Type sf) v a (fieldFlag r sf), Some (Type sf), [i])
                    | Inr False \<Rightarrow> getFieldByName_fields fts vs (i + 1) a r fieldName)
                 else getFieldByName_fields fts vs (i + 1) a r fieldName))"
  using assms by (auto simp: Let_def)

text \<open>
  C2, as stated, fails on the derivation rule: HTTPServer carries no toml tag and is
  resolved under http_server, with an underscore before an upper-case letter that
  follows an upper-case letter; the rule of the specification gives httpserver.
\<close>

theorem toSnakeCase_acronym_counterexample:
  "Tag_Lookup (Tag (StructField ''HTTPServer'' (Basic ''string'' KString) [] False)) ''toml'' = None
   \<and> toSnakeCase ''HTTPServer'' (StructField ''HTTPServer'' (Basic ''string'' KString) [] False)
       = (''http_server'', True)
   \<and> spec_toSnakeCase ''HTTPServer'' = ''httpserver''"
  by (simp add: name_eval)

text \<open>
  C2, amended. A toml tag other than "-" is the external name, whatever the field is
  called, and a field that is not an embedded struct is resolved under that tag and under
  no other name. A toml tag "-" gives no external name, schema derivation skips the
  field, and a field that is not an embedded struct is not resolved under any name other
  than "-". With no toml tag the name is derived from the field name; for every name in
  which each capitalised word follows a lower-case letter or a digit, the derived name
  is the one of the specification's rule (an underscore before each upper-case run that
  follows a lower-case letter or a digit, then lower case), and MetricBatchSize maps to
  metric_batch_size.
\<close>

theorem toSnakeCase_resolution:
  "(Tag_Lookup (Tag sf) ''toml'' = Some t \<and> t \<noteq> ''-'' \<longrightarrow>
      toSnakeCase str sf = (t, True)
      \<and> (\<not> (Kind (Type sf) = KStruct \<and> Anonymous sf) \<longrightarrow>
           getFieldByName_fields (sf # fts) (v # vs) i a r t
             = Inr (Val (Type sf) v a (fieldFlag r sf), Some (Type sf), [i])
           \<and> (fieldName \<noteq> t \<longrightarrow>
                getFieldByName_fields (sf # fts) (v # vs) i a r fieldName
                  = getFieldByName_fields fts vs (i + 1) a r fieldName)))
   \<and> (Tag_Lookup (Tag sf) ''toml'' = Some ''-'' \<longrightarrow>
        toSnakeCase str sf = ([], False)
        \<and> getFieldConfig_loop (sf # fts) vals cfg
            = getFieldConfig_loop fts (case vals of Some (w # ws) \<Rightarrow> Some ws | _ \<Rightarrow> None) cfg
        \<and> (fieldName \<noteq> ''-'' \<and> \<not> (Kind (Type sf) = KStruct \<and> Anonymous sf) \<longrightarrow>
             getFieldByName_fields (sf # fts) (v # vs) i a r fieldName
               = getFieldByName_fields fts vs (i + 1) a r fieldName))
   \<and> (Tag_Lookup (Tag sf) ''toml'' = None \<and> wordsFollowLower str \<longrightarrow>
        toSnakeCase str sf = (spec_toSnakeCase str, True))
   \<and> toSnakeCase ''MetricBatchSize'' (StructField ''MetricBatchSize'' ty [] an)
       = (''metric_batch_size'', True)"
proof (intro conjI impI)
  assume h: "Tag_Lookup (Tag sf) ''toml'' = Some t \<and> t \<noteq> ''-''"
  then show s: "toSnakeCase str sf = (t, True)" by (simp add: toSnakeCase_def)
  have s': "toSnakeCase (Name sf) sf = (t, True)" using h by (simp add: toSnakeCase_def)
  assume ne: "\<not> (Kind (Type sf) = KStruct \<and> Anonymous sf)"
  show "getFieldByName_fields (sf # fts) (v # vs) i a r t
             = Inr (Val (Type sf) v a (fieldFlag r sf), Some (Type sf), [i])"
    using h by (simp add: notEmbedded_step[OF ne] Tag_Get_Lookup del: getFieldByName_fields.simps)
  assume "fieldName \<noteq> t"
  then show "getFieldByName_fields (sf # fts) (v # vs) i a r fieldName
                  = getFieldByName_fields fts vs (i + 1) a r fieldName"
    using h s' by (simp add: notEmbedded_step[OF ne] Tag_Get_Lookup del: getFieldByName_fields.simps)
next
  assume h: "Tag_Lookup (Tag sf) ''toml'' = Some ''-''"
  then show "toSnakeCase str sf = ([], False)" by (simp add: toSnakeCase_def)
  have s': "toSnakeCase (Name sf) sf = ([], False)" using h by (simp add: toSnakeCase_def)
  show "getFieldConfig_loop (sf # fts) vals cfg
            = getFieldConfig_loop fts (case vals of Some (w # ws) \<Rightarrow> Some ws | _ \<Rightarrow> None) cfg"
    using Tag_Get_Lookup[OF h] by (simp add: Let_def)
  assume "fieldName \<noteq> ''-'' \<and> \<not> (Kind (Type sf) = KStruct \<and> Anonymous sf)"
  then show "getFieldByName_fields (sf # fts) (v # vs) i a r fieldName
               = getFieldByName_fields fts vs (i + 1) a r fieldName"
    using Tag_Get_Lookup[OF h] s' by (auto simp add: notEmbedded_step simp del: getFieldByName_fields.simps)
next
  assume "Tag_Lookup (Tag sf) ''toml'' = None \<and> wordsFollowLower str"
  then show "toSnakeCase str sf = (spec_toSnakeCase str, True)"
    by (simp add: toSnakeCase_def spec_toSnakeCase_def rac_spec rfc_spec)
next
  show "toSnakeCase ''MetricBatchSize'' (StructField ''MetricBatchSize'' ty [] an)
       = (''metric_batch_size'', True)"
    by (simp add: name_eval)
qed


text \<open>
  C2, witness: a field tagged batch, a field tagged "-", and the untagged field
  MetricBatchSize.
\<close>

theorem toSnakeCase_resolution_witness:
  "Tag_Lookup (Tag (StructField ''MetricBatchSize'' (Basic ''int'' KInt) [(''toml'', ''batch'')] False))
      ''toml'' = Some ''batch''
   \<and> toSnakeCase ''MetricBatchSize''
        (StructField ''MetricBatchSize'' (Basic ''int'' KInt) [(''toml'', ''batch'')] False)
       = (''batch'', True)
   \<and> getFieldByName_fields
        [StructField ''MetricBatchSize'' (Basic ''int'' KInt) [(''toml'', ''batch'')] False]
        [GInt 5] 0 True RW ''batch''
       = Inr (Val (Basic ''int'' KInt) (GInt 5) True RW, Some (Basic ''int'' KInt), [0])
   \<and> getFieldByName_fields
        [StructField ''MetricBatchSize'' (Basic ''int'' KInt) [(''toml'', ''batch'')] False]
        [GInt 5] 0 True RW ''metric_batch_size''
       = Inr (ZeroValue, None, [])
   \<and> Tag_Lookup (Tag (StructField ''Secret'' (Basic ''string'' KString) [(''toml'', ''-'')] False))
      ''toml'' = Some ''-''
   \<and> toSnakeCase ''Secret'' (StructField ''Secret'' (Basic ''string'' KString) [(''toml'', ''-'')] False)
       = ([], False)
   \<and> getFieldConfig_loop [StructField ''Secret'' (Basic ''string'' KString) [(''toml'', ''-'')] False]
        None [] = Inr []
   \<and> getFieldByName_fields
        [StructField ''Secret'' (Basic ''string'' KString) [(''toml'', ''-'')] False]
        [GString ''x''] 0 True RW ''secret''
       = Inr (ZeroValue, None, [])
   \<and> Tag_Lookup (Tag (StructField ''MetricBatchSize'' (Basic ''int'' KInt) [] False)) ''toml'' = None
   \<and> wordsFollowLower ''MetricBatchSize''
   \<and> toSnakeCase ''MetricBatchSize'' (StructField ''MetricBatchSize'' (Basic ''int'' KInt) [] False)
       = (''metric_batch_size'', True)"
proof -
  note A = toSnakeCase_resolution
    [of "StructField ''MetricBatchSize'' (Basic ''int'' KInt) [(''toml'', ''batch'')] False"
        "''batch''" "''MetricBatchSize''" "[]" "GInt 5" "[]" 0 True RW "''metric_batch_size''"]
  note B = toSnakeCase_resolution
    [of "StructField ''Secret'' (Basic ''string'' KString) [(''toml'', ''-'')] False"
        "''batch''" "''Secret''" "[]" "GString ''x''" "[]" 0 True RW "''secret''" None "[]"]
  note C = toSnakeCase_resolution
    [of "StructField ''MetricBatchSize'' (Basic ''int'' KInt) [] False"
        "''batch''" "''MetricBatchSize''"]
  have w: "wordsFollowLower ''MetricBatchSize''"
    by (simp add: isUpper_def isLower_def isDigit_def)
  have s: "spec_toSnakeCase ''MetricBatchSize'' = ''metric_batch_size''"
    by (simp add: name_eval)
  show ?thesis
    using A B C w s by (simp add: name_eval fieldFlag_def isExported_def Let_def)
qed


section \<open>Properties of the lifecycle manager\<close>

lemma length_Split: "length (Split s sep) = Suc (length (filter (\<lambda>c. c = sep) s))"
  by (induction s) (auto split: list.splits)

lemma waitDead_never:
  "(\<And>k. n \<le> k \<Longrightarrow> k \<le> deadline \<Longrightarrow> status k \<noteq> PluginStateDead) \<Longrightarrow> n \<le> deadline \<Longrightarrow>
   \<not> waitDead status deadline n"
proof (induction "deadline - n" arbitrary: n)
  case 0
  then show ?case by (subst waitDead.simps) simp
next
  case (Suc d)
  have "status n \<noteq> PluginStateDead" using Suc.prems by simp
  moreover have "\<not> waitDead status deadline (Suc n)"
    using Suc by (intro Suc.hyps(1)) auto
  ultimately show ?case by (subst waitDead.simps) simp
qed

text \<open>
  C7: when DeletePlugin finds the instance and none of the tests of the status, up to the
  one at the deadline of the context, reads Dead, UpdatePlugin returns the error
  "timed out shutting down plugin for update", which is neither NotFound nor BadRequest,
  and its trace is that of DeletePlugin alone: CreatePlugin is not called, whatever it
  would do, so no replacement takes the id.
\<close>

theorem UpdatePlugin_timeout:
  assumes "snd (DeletePlugin Uint64 removeHooks (world 0) pid) = None"
      and "\<forall>n \<le> deadline. GetPluginStatus Uint64 (world (Suc n)) pid \<noteq> PluginStateDead"
  shows "UpdatePlugin Uint64 removeHooks world deadline create pid cfg
           = (fst (DeletePlugin Uint64 removeHooks (world 0) pid),
              Some (Errorf ''timed out shutting down plugin for update'' [] None))
         \<and> \<not> errors_Is (Errorf ''timed out shutting down plugin for update'' [] None) ErrNotFound
         \<and> \<not> errors_Is (Errorf ''timed out shutting down plugin for update'' [] None) ErrBadRequest"
proof -
  have "\<not> waitDead (\<lambda>n. GetPluginStatus Uint64 (world (Suc n)) pid) deadline 0"
    using assms(2) by (intro waitDead_never) auto
  then show ?thesis
    using assms(1)
    by (cases "DeletePlugin Uint64 removeHooks (world 0) pid")
       (simp add: UpdatePlugin_def ErrNotFound_def ErrBadRequest_def)
qed

text \<open>
  C7, witness: a processor that stays in the state Stopping through 300 waits.
\<close>

theorem UpdatePlugin_timeout_witness:
  "snd (DeletePlugin (\<lambda>s. 7) [1 :: nat, 2] demoAgent ''0000000000000007'') = None
   \<and> UpdatePlugin (\<lambda>s. 7) [1 :: nat, 2] (\<lambda>n. demoAgent) 300 (\<lambda>c i. ([], Inr i))
         ''0000000000000007'' ()
       = ([CallHook 1 ''0000000000000007'', CallHook 2 ''0000000000000007'',
           StopProcessor demoPlugin],
          Some (Errorf ''timed out shutting down plugin for update'' [] None))"
proof -
  have d: "DeletePlugin (\<lambda>s. 7) [1 :: nat, 2] demoAgent ''0000000000000007''
           = ([CallHook 1 ''0000000000000007'', CallHook 2 ''0000000000000007'',
           StopProcessor demoPlugin], None)"
    by (simp add: DeletePlugin_def removePluginHook_def demoAgent_def demoPlugin_def)
  have s: "\<forall>n \<le> 300. GetPluginStatus (\<lambda>s. 7) ((\<lambda>n. demoAgent) (Suc n)) ''0000000000000007''
             \<noteq> PluginStateDead"
    by (simp add: GetPluginStatus_def demoAgent_def demoPlugin_def)
  show ?thesis
    using UpdatePlugin_timeout
      [of "\<lambda>s. 7" "[1 :: nat, 2]" "\<lambda>n. demoAgent" "''0000000000000007''" 300
          "\<lambda>c i. ([], Inr i)" "()"] d s
    by simp
qed

text \<open>
  C8: the trace of DeletePlugin starts with one call of each registered remove hook, in
  the order of registration, whether or not an instance matches; after them comes the
  stop request for the first instance with the id, searched among the inputs, then the
  processors, then the outputs, and nothing else; the result is ErrNotFound exactly when
  no instance of any of the three lists has the id, and nil otherwise.
\<close>

theorem DeletePlugin_hook_first:
  "fst (DeletePlugin Uint64 removeHooks ag pid)
     = map (\<lambda>h. CallHook h pid) removeHooks
       @ (case find (\<lambda>v. ID v = Uint64 pid) (RunningInputs ag) of
            Some v \<Rightarrow> [StopInput v]
          | None \<Rightarrow>
             (case find (\<lambda>v. ID v = Uint64 pid) (RunningProcessors ag) of
                Some v \<Rightarrow> [StopProcessor v]
              | None \<Rightarrow>
                 (case find (\<lambda>v. ID v = Uint64 pid) (RunningOutputs ag) of
                    Some v \<Rightarrow> [StopOutput v]
                  | None \<Rightarrow> [])))
   \<and> (snd (DeletePlugin Uint64 removeHooks ag pid) = Some ErrNotFound \<longleftrightarrow>
        (\<forall>v \<in> set (RunningInputs ag) \<union> set (RunningProcessors ag) \<union> set (RunningOutputs ag).
           ID v \<noteq> Uint64 pid))
   \<and> (snd (DeletePlugin Uint64 removeHooks ag pid) \<noteq> Some ErrNotFound \<longrightarrow>
        snd (DeletePlugin Uint64 removeHooks ag pid) = None)"
proof -
  let ?m = "\<lambda>v. ID v = Uint64 pid"
  have none: "find ?m xs = None \<longleftrightarrow> (\<forall>v \<in> set xs. ID v \<noteq> Uint64 pid)" for xs
    by (auto simp add: find_None_iff)
  show ?thesis
  proof (cases "find ?m (RunningInputs ag)")
    case (Some v)
    then have "\<not> (\<forall>v \<in> set (RunningInputs ag). ID v \<noteq> Uint64 pid)"
      using none[of "RunningInputs ag"] by simp
    with Some show ?thesis
      by (auto simp: DeletePlugin_def removePluginHook_def Let_def)
  next
    case i: None
    show ?thesis
    proof (cases "find ?m (RunningProcessors ag)")
      case (Some v)
      then have "\<not> (\<forall>v \<in> set (RunningProcessors ag). ID v \<noteq> Uint64 pid)"
        using none[of "RunningProcessors ag"] by simp
      with i Some show ?thesis
        by (auto simp: DeletePlugin_def removePluginHook_def Let_def)
    next
      case p: None
      show ?thesis
      proof (cases "find ?m (RunningOutputs ag)")
        case (Some v)
        then have "\<not> (\<forall>v \<in> set (RunningOutputs ag). ID v \<noteq> Uint64 pid)"
          using none[of "RunningOutputs ag"] by simp
        with i p Some show ?thesis
          by (auto simp: DeletePlugin_def removePluginHook_def Let_def)
      next
        case None
        with i p none show ?thesis
          by (auto simp: DeletePlugin_def removePluginHook_def Let_def)
      qed
    qed
  qed
qed

text \<open>
  C8, witness: the id of the running processor, and an id that no instance has.
\<close>

theorem DeletePlugin_hook_first_witness:
  "DeletePlugin (\<lambda>s. 7) [1 :: nat, 2] demoAgent ''0000000000000007''
     = ([CallHook 1 ''0000000000000007'', CallHook 2 ''0000000000000007'',
         StopProcessor demoPlugin], None)
   \<and> DeletePlugin (\<lambda>s. 8) [1 :: nat, 2] demoAgent ''0000000000000008''
     = ([CallHook 1 ''0000000000000008'', CallHook 2 ''0000000000000008''], Some ErrNotFound)"
proof -
  have f: "find (\<lambda>v. ID v = 7) [demoPlugin] = Some demoPlugin"
          "find (\<lambda>v. ID v = 8) [demoPlugin] = None"
    by (simp_all add: demoPlugin_def)
  have n: "\<forall>v \<in> set (RunningInputs demoAgent) \<union> set (RunningProcessors demoAgent)
                \<union> set (RunningOutputs demoAgent). ID v \<noteq> (\<lambda>s. 8) ''0000000000000008''"
    by (simp add: demoAgent_def demoPlugin_def)
  have y: "\<not> (\<forall>v \<in> set (RunningInputs demoAgent) \<union> set (RunningProcessors demoAgent)
                \<union> set (RunningOutputs demoAgent). ID v \<noteq> (\<lambda>s. 7) ''0000000000000007'')"
    by (simp add: demoAgent_def demoPlugin_def)
  note A = DeletePlugin_hook_first[of "\<lambda>s. 7" "[1 :: nat, 2]" demoAgent "''0000000000000007''"]
  note B = DeletePlugin_hook_first[of "\<lambda>s. 8" "[1 :: nat, 2]" demoAgent "''0000000000000008''"]
  have a: "snd (DeletePlugin (\<lambda>s. 7) [1 :: nat, 2] demoAgent ''0000000000000007'') = None"
    using A y by blast
  have b: "snd (DeletePlugin (\<lambda>s. 8) [1 :: nat, 2] demoAgent ''0000000000000008'') = Some ErrNotFound"
    using B n by blast
  have a1: "fst (DeletePlugin (\<lambda>s. 7) [1 :: nat, 2] demoAgent ''0000000000000007'')
     = [CallHook 1 ''0000000000000007'', CallHook 2 ''0000000000000007'', StopProcessor demoPlugin]"
    using A f by (simp add: demoAgent_def)
  have b1: "fst (DeletePlugin (\<lambda>s. 8) [1 :: nat, 2] demoAgent ''0000000000000008'')
     = [CallHook 1 ''0000000000000008'', CallHook 2 ''0000000000000008'']"
    using B f by (simp add: demoAgent_def)
  show ?thesis using a b a1 b1 by (simp add: prod_eq_iff)
qed

text \<open>
  C10: for a type name without the separator ".", CreatePlugin panics on \<open>parts[1]\<close>,
  whatever the registries hold; for a name with a separator whose category is not one of
  the four or whose second part is not registered in its category, it returns an error
  that wraps ErrNotFound.
\<close>

theorem CreatePlugin_no_separator:
  "(CHR ''.'' \<notin> set cfgName \<longrightarrow>
      CreatePlugin reg create cfgName
        = Inl (Panic ''runtime error: index out of range [1] with length 1''))
   \<and> (CHR ''.'' \<in> set cfgName
       \<and> \<not> (Split cfgName CHR ''.'' ! 0 = ''inputs'' \<and> Split cfgName CHR ''.'' ! 1 \<in> Inputs reg)
       \<and> \<not> (Split cfgName CHR ''.'' ! 0 = ''outputs'' \<and> Split cfgName CHR ''.'' ! 1 \<in> Outputs reg)
       \<and> \<not> (Split cfgName CHR ''.'' ! 0 = ''aggregators''
             \<and> Split cfgName CHR ''.'' ! 1 \<in> Aggregators reg)
       \<and> \<not> (Split cfgName CHR ''.'' ! 0 = ''processors''
             \<and> Split cfgName CHR ''.'' ! 1 \<in> Processors reg)
       \<longrightarrow> (\<exists>e. CreatePlugin reg create cfgName = Inl e \<and> errors_Is e ErrNotFound))"
proof (intro conjI impI)
  assume "CHR ''.'' \<notin> set cfgName"
  then have "filter (\<lambda>c. c = CHR ''.'') cfgName = []" by (auto simp: filter_empty_conv)
  then have "length (Split cfgName CHR ''.'') = 1" by (simp add: length_Split)
  then show "CreatePlugin reg create cfgName
        = Inl (Panic ''runtime error: index out of range [1] with length 1'')"
    by (simp add: CreatePlugin_def)
next
  assume h: "CHR ''.'' \<in> set cfgName
       \<and> \<not> (Split cfgName CHR ''.'' ! 0 = ''inputs'' \<and> Split cfgName CHR ''.'' ! 1 \<in> Inputs reg)
       \<and> \<not> (Split cfgName CHR ''.'' ! 0 = ''outputs'' \<and> Split cfgName CHR ''.'' ! 1 \<in> Outputs reg)
       \<and> \<not> (Split cfgName CHR ''.'' ! 0 = ''aggregators''
             \<and> Split cfgName CHR ''.'' ! 1 \<in> Aggregators reg)
       \<and> \<not> (Split cfgName CHR ''.'' ! 0 = ''processors''
             \<and> Split cfgName CHR ''.'' ! 1 \<in> Processors reg)"
  then have "filter (\<lambda>c. c = CHR ''.'') cfgName \<noteq> []" by (auto simp: filter_empty_conv)
  then have "\<not> length (Split cfgName CHR ''.'') < 2"
    by (cases "filter (\<lambda>c. c = CHR ''.'') cfgName") (simp_all add: length_Split)
  then show "\<exists>e. CreatePlugin reg create cfgName = Inl e \<and> errors_Is e ErrNotFound"
    using h by (auto simp: CreatePlugin_def Let_def ErrNotFound_def)
qed


text \<open>
  C10, witness: the names "cpu" and "" panic, "bogus.nothing" is not found.
\<close>

theorem CreatePlugin_no_separator_witness:
  "CreatePlugin \<lparr>Inputs = {''cpu''}, Outputs = {}, Aggregators = {}, Processors = {}\<rparr>
      (\<lambda>c n. Inr ''0000000000000001'') ''cpu''
     = Inl (Panic ''runtime error: index out of range [1] with length 1'')
   \<and> CreatePlugin \<lparr>Inputs = {''cpu''}, Outputs = {}, Aggregators = {}, Processors = {}\<rparr>
      (\<lambda>c n. Inr ''0000000000000001'') []
     = Inl (Panic ''runtime error: index out of range [1] with length 1'')
   \<and> CreatePlugin \<lparr>Inputs = {''cpu''}, Outputs = {}, Aggregators = {}, Processors = {}\<rparr>
      (\<lambda>c n. Inr ''0000000000000001'') ''bogus.nothing''
     = Inl (Errorf ''%w: Unknown plugin type'' [] (Some ErrNotFound))
   \<and> errors_Is (Errorf ''%w: Unknown plugin type'' [] (Some ErrNotFound)) ErrNotFound"
proof -
  let ?r = "\<lparr>Inputs = {''cpu''}, Outputs = {}, Aggregators = {}, Processors = {}\<rparr>"
  let ?c = "\<lambda>(c :: string) (n :: string). (Inr ''0000000000000001'' :: error + string)"
  note A = CreatePlugin_no_separator[of "''cpu''" ?r ?c]
  note B = CreatePlugin_no_separator[of "[]" ?r ?c]
  note C = CreatePlugin_no_separator[of "''bogus.nothing''" ?r ?c]
  have a: "CreatePlugin ?r ?c ''cpu'' = Inl (Panic ''runtime error: index out of range [1] with length 1'')"
    using A by simp
  have b: "CreatePlugin ?r ?c [] = Inl (Panic ''runtime error: index out of range [1] with length 1'')"
    using B by simp
  have s: "Split ''bogus.nothing'' CHR ''.'' = [''bogus'', ''nothing'']" by simp
  have "\<exists>e. CreatePlugin ?r ?c ''bogus.nothing'' = Inl e \<and> errors_Is e ErrNotFound"
    using C s by simp
  moreover have "CreatePlugin ?r ?c ''bogus.nothing'' = Inl (Errorf ''%w: Unknown plugin type'' [] (Some ErrNotFound))"
    using s by (simp add: CreatePlugin_def)
  ultimately show ?thesis using a b by auto
qed


section \<open>Properties of the binder\<close>

text \<open>The cases of the switch of setObject on the kind of the source.\<close>

lemma setObject_case_Bool:
  "ValueKind (unwrapInterface from0) = KBool \<Longrightarrow>
   setObject L from0 to0 dt = setObject_Bool (unwrapInterface from0) to0 dt"
  by (subst setObject.simps) (simp add: Let_def)

lemma setObject_case_String:
  "ValueKind (unwrapInterface from0) = KString \<Longrightarrow>
   setObject L from0 to0 dt = setObject_String L (unwrapInterface from0) to0 dt"
  by (subst setObject.simps) (simp add: Let_def)

lemma setObject_case_Int:
  "isIntKind (ValueKind (unwrapInterface from0)) \<Longrightarrow>
   setObject L from0 to0 dt = setObject_Int (unwrapInterface from0) to0 dt"
  by (subst setObject.simps) (auto simp add: Let_def isIntKind_def)

lemma setObject_case_Uint:
  "isUintKind (ValueKind (unwrapInterface from0)) \<Longrightarrow>
   setObject L from0 to0 dt = setObject_Uint (unwrapInterface from0) to0 dt"
  by (subst setObject.simps) (auto simp add: Let_def isIntKind_def isUintKind_def)

lemma setObject_case_Float:
  "isFloatKind (ValueKind (unwrapInterface from0)) \<Longrightarrow>
   setObject L from0 to0 dt = setObject_Float (unwrapInterface from0) to0 dt"
  by (subst setObject.simps) (auto simp add: Let_def isIntKind_def isUintKind_def isFloatKind_def)


lemmas dur_eval = time_ParseDuration_def parseUnits.simps scanNumber_def leadingInt_def
  leadingFraction_def unitMap_def isNumberChar_def isDigit_def digitVal_def Let_def

lemma unwrap_string: "unwrapInterface (Val stringT (GString s) a r) = Val stringT (GString s) a r"
  by (simp add: unwrapInterface_def)

lemma setObject_duration:
  assumes "n = ''time.Duration'' \<or> n = ''config.Duration''" and "isIntKind k"
  shows "setObject L (Val stringT (GString s) a RW) (Val (Basic n k) g True RW) (Basic n k)
         = (case ParseDuration L s of
              Inl err \<Rightarrow> Inl (Errorf ''Couldn't parse duration %q: %w'' [s] (Some err))
            | Inr d \<Rightarrow> Inr (GInt (wrapInt k d)))"
proof -
  have k: "k \<noteq> KPtr" "k \<noteq> KBool" using assms(2) by (auto simp: isIntKind_def)
  have a: "allocPtr (Val (Basic n k) g True RW) (Basic n k) = Inr (Val (Basic n k) g True RW, False)"
    using k by (simp add: allocPtr_def)
  have s: "assertString (Val stringT (GString s) a RW) = Inr s"
    by (simp add: assertString_def stringT_def)
  have i: "SetInt (Val (Basic n k) g True RW) d = Inr (GInt (wrapInt k d))" for d
    using assms(2) by (simp add: SetInt_def mustBeAssignable_def)
  have "setObject L (Val stringT (GString s) a RW) (Val (Basic n k) g True RW) (Basic n k)
        = setObject_String L (Val stringT (GString s) a RW) (Val (Basic n k) g True RW) (Basic n k)"
  proof -
    have kk: "ValueKind (unwrapInterface (Val stringT (GString s) a RW)) = KString"
      unfolding unwrap_string by (simp add: stringT_def)
    show ?thesis using setObject_case_String[OF kk] unfolding unwrap_string .
  qed
  also have "\<dots> = (case ParseDuration L s of
              Inl err \<Rightarrow> Inl (Errorf ''Couldn't parse duration %q: %w'' [s] (Some err))
            | Inr d \<Rightarrow> Inr (GInt (wrapInt k d)))"
    using assms(1)
    by (cases "ParseDuration L s")
       (auto simp: setObject_String_def a s i elemIf_def wrapPtr_def Let_def)
  finally show ?thesis .
qed

lemma keys1: "sort (remdups (map fst [(k, v)])) = [k]" by simp

lemma resolve_timeout:
  "getFieldByName (Val durationPlugin (GStruct [g]) True RW) ''timeout''
     = Inr (Val (Basic ''config.Duration'' KInt64) g True RW, Some (Basic ''config.Duration'' KInt64), [0])"
  by (simp add: getFieldByName_def durationPlugin_def Let_def Tag_Get_def toSnakeCase_def
        Tag_Lookup_def ToLower_def toLowerChar_def isUpper_def isLower_def isDigit_def
        isExported_def fieldFlag_def)

lemma bind_timeout:
  "setFieldConfig L [(''timeout'', GIface (Some (stringT, GString s)))]
      (Some (PtrT [] durationPlugin, GPtr (Some (GStruct [g]))))
   = (case ParseDuration L s of
        Inl err \<Rightarrow> Inl (Errorf ''Could not set field %q: %w'' [''timeout'']
                     (Some (Errorf ''Couldn't parse duration %q: %w'' [s] (Some err))))
      | Inr d \<Rightarrow> Inr (Some (PtrT [] durationPlugin,
                         GPtr (Some (GStruct [GInt (wrapInt KInt64 d)])))))"
  apply (subst setFieldConfig.simps)
  apply (simp only: keys1)
  apply (cases "ParseDuration L s")
  apply (simp_all add: Value_Elem_def resolve_timeout valueOfEntry_def
       setObject_duration isIntKind_def wrapErr_def)
  done


lemma wrapInt_id: "- (2 ^ 63) \<le> i \<Longrightarrow> i < 2 ^ 63 \<Longrightarrow> wrapInt KInt64 i = i"
  by (simp add: wrapInt_def bits_def)

text \<open>
  C4: a string bound to a place that can be set, of an integer kind and of the type
  time.Duration or config.Duration, is parsed by ParseDuration; the nanoseconds are
  stored, and a failure of the parser is returned as the error "Couldn't parse duration".
  With the parser of the Go library, binding the field set {"timeout": "1h30m"} onto a
  plugin whose Timeout field is a config.Duration stores ninety minutes, and binding
  {"timeout": "not-a-duration"} returns the error "Could not set field" around the
  parse error.
\<close>

theorem bind_duration:
  "((n = ''time.Duration'' \<or> n = ''config.Duration'') \<and> isIntKind k \<longrightarrow>
      setObject L (Val stringT (GString s) a RW) (Val (Basic n k) g True RW) (Basic n k)
        = (case ParseDuration L s of
             Inl err \<Rightarrow> Inl (Errorf ''Couldn't parse duration %q: %w'' [s] (Some err))
           | Inr d \<Rightarrow> Inr (GInt (wrapInt k d))))
   \<and> (ParseDuration L = time_ParseDuration \<longrightarrow>
        setFieldConfig L [(''timeout'', GIface (Some (stringT, GString ''1h30m'')))]
            (Some (PtrT [] durationPlugin, GPtr (Some (GStruct [g]))))
          = Inr (Some (PtrT [] durationPlugin,
                       GPtr (Some (GStruct [GInt (90 * 60 * 1000000000)]))))
        \<and> setFieldConfig L [(''timeout'', GIface (Some (stringT, GString ''not-a-duration'')))]
            (Some (PtrT [] durationPlugin, GPtr (Some (GStruct [g]))))
          = Inl (Errorf ''Could not set field %q: %w'' [''timeout'']
                  (Some (Errorf ''Couldn't parse duration %q: %w'' [''not-a-duration'']
                     (Some (Errorf ''time: invalid duration %s'' [''not-a-duration''] None))))))"
proof (intro conjI impI)
  assume "(n = ''time.Duration'' \<or> n = ''config.Duration'') \<and> isIntKind k"
  then show "setObject L (Val stringT (GString s) a RW) (Val (Basic n k) g True RW) (Basic n k)
        = (case ParseDuration L s of
             Inl err \<Rightarrow> Inl (Errorf ''Couldn't parse duration %q: %w'' [s] (Some err))
           | Inr d \<Rightarrow> Inr (GInt (wrapInt k d)))"
    using setObject_duration by blast
next
  assume L: "ParseDuration L = time_ParseDuration"
  have p: "time_ParseDuration ''1h30m'' = Inr 5400000000000"
    by (simp add: dur_eval)
  show "setFieldConfig L [(''timeout'', GIface (Some (stringT, GString ''1h30m'')))]
            (Some (PtrT [] durationPlugin, GPtr (Some (GStruct [g]))))
          = Inr (Some (PtrT [] durationPlugin,
                       GPtr (Some (GStruct [GInt (90 * 60 * 1000000000)]))))"
    by (simp add: bind_timeout L p wrapInt_id)
next
  assume L: "ParseDuration L = time_ParseDuration"
  have p: "time_ParseDuration ''not-a-duration''
           = Inl (Errorf ''time: invalid duration %s'' [''not-a-duration''] None)"
    by (simp add: dur_eval)
  show "setFieldConfig L [(''timeout'', GIface (Some (stringT, GString ''not-a-duration'')))]
            (Some (PtrT [] durationPlugin, GPtr (Some (GStruct [g]))))
          = Inl (Errorf ''Could not set field %q: %w'' [''timeout'']
                  (Some (Errorf ''Couldn't parse duration %q: %w'' [''not-a-duration'']
                     (Some (Errorf ''time: invalid duration %s'' [''not-a-duration''] None)))))"
    by (simp add: bind_timeout L p)
qed

text \<open>
  C4, witness: the string "30s" bound to a config.Duration, and the two field sets.
\<close>

theorem bind_duration_witness:
  "setObject (goLibrary (\<lambda>s. Inr 0) (\<lambda>d. []) (\<lambda>d. []))
      (Val stringT (GString ''30s'') False RW)
      (Val (Basic ''config.Duration'' KInt64) (GInt 0) True RW) (Basic ''config.Duration'' KInt64)
     = Inr (GInt 30000000000)
   \<and> setFieldConfig (goLibrary (\<lambda>s. Inr 0) (\<lambda>d. []) (\<lambda>d. []))
        [(''timeout'', GIface (Some (stringT, GString ''1h30m'')))]
        (Some (PtrT [] durationPlugin, GPtr (Some (GStruct [GInt 0]))))
     = Inr (Some (PtrT [] durationPlugin, GPtr (Some (GStruct [GInt 5400000000000]))))
   \<and> setFieldConfig (goLibrary (\<lambda>s. Inr 0) (\<lambda>d. []) (\<lambda>d. []))
        [(''timeout'', GIface (Some (stringT, GString ''not-a-duration'')))]
        (Some (PtrT [] durationPlugin, GPtr (Some (GStruct [GInt 0]))))
     = Inl (Errorf ''Could not set field %q: %w'' [''timeout'']
             (Some (Errorf ''Couldn't parse duration %q: %w'' [''not-a-duration'']
                (Some (Errorf ''time: invalid duration %s'' [''not-a-duration''] None)))))"
proof -
  let ?L = "goLibrary (\<lambda>s. Inr 0) (\<lambda>d. []) (\<lambda>d. [])"
  have L: "ParseDuration ?L = time_ParseDuration" by (simp add: goLibrary_def)
  have p: "time_ParseDuration ''30s'' = Inr 30000000000" by (simp add: dur_eval)
  have k: "isIntKind KInt64" by (simp add: isIntKind_def)
  show ?thesis
    using bind_duration[of "''config.Duration''" KInt64 ?L "''30s''" False "GInt 0"] L p k
    by (simp add: wrapInt_id)
qed

text \<open>
  C3, at the failing inputs: an int64 source bound to a float64 place panics in
  \<open>from.Float()\<close>, and a uint64 source bound to an int64 place panics in \<open>to.SetUint\<close>;
  neither is assigned.
\<close>

theorem setObject_widening_panics:
  "setObject L (Val (Basic ''int64'' KInt64) (GInt 5) False RW)
      (Val float64T (GFloat 0) True RW) float64T
     = Inl (Panic ''reflect: call of reflect.Value.Float on int64 Value'')
   \<and> setObject L (Val (Basic ''uint64'' KUint64) (GUint 5) False RW)
      (Val (Basic ''int64'' KInt64) (GInt 0) True RW) (Basic ''int64'' KInt64)
     = Inl (Panic ''reflect: call of reflect.Value.SetUint on int64 Value'')"
proof
  have u: "unwrapInterface (Val (Basic ''int64'' KInt64) (GInt 5) False RW)
           = Val (Basic ''int64'' KInt64) (GInt 5) False RW"
    by (simp add: unwrapInterface_def)
  have "isIntKind (ValueKind (unwrapInterface (Val (Basic ''int64'' KInt64) (GInt 5) False RW)))"
    unfolding u by (simp add: isIntKind_def)
  from setObject_case_Int[OF this]
  show "setObject L (Val (Basic ''int64'' KInt64) (GInt 5) False RW)
      (Val float64T (GFloat 0) True RW) float64T
     = Inl (Panic ''reflect: call of reflect.Value.Float on int64 Value'')"
    unfolding u
    by (simp add: setObject_Int_def allocPtr_def float64T_def elemIf_def isUintKind_def
          isIntKind_def isFloatKind_def Value_Float_def wrapPtr_def)
next
  have u: "unwrapInterface (Val (Basic ''uint64'' KUint64) (GUint 5) False RW)
           = Val (Basic ''uint64'' KUint64) (GUint 5) False RW"
    by (simp add: unwrapInterface_def)
  have "isUintKind (ValueKind (unwrapInterface (Val (Basic ''uint64'' KUint64) (GUint 5) False RW)))"
    unfolding u by (simp add: isUintKind_def)
  from setObject_case_Uint[OF this]
  show "setObject L (Val (Basic ''uint64'' KUint64) (GUint 5) False RW)
      (Val (Basic ''int64'' KInt64) (GInt 0) True RW) (Basic ''int64'' KInt64)
     = Inl (Panic ''reflect: call of reflect.Value.SetUint on int64 Value'')"
    unfolding u
    by (simp add: setObject_Uint_def allocPtr_def Value_Uint_def isUintKind_def SetUint_def
          mustBeAssignable_def wrapPtr_def)
qed


lemma setFieldConfig_loop:
  "setFieldConfig L cfg p =
     (case (if ValueKind (ValueOf p) = KPtr then Value_Elem (ValueOf p) else Inr (ValueOf p)) of
        Inl e \<Rightarrow> Inl e
      | Inr destStruct \<Rightarrow>
         (case foldE (setField L cfg) (sort (remdups (map fst cfg))) destStruct of
            Inl e \<Rightarrow> Inl e
          | Inr final \<Rightarrow>
              Inr (case p of
                     Some (t, GPtr (Some x)) \<Rightarrow> Some (t, GPtr (Some (vval final)))
                   | _ \<Rightarrow> p)))"
  unfolding setField_def by (rule setFieldConfig.simps)

lemma setFieldConfig_single:
  "setFieldConfig L [(k, v)] (Some (PtrT n t, GPtr (Some x))) =
     (case setField L [(k, v)] k (Val t x True RW) of
        Inl e \<Rightarrow> Inl e
      | Inr final \<Rightarrow> Inr (Some (PtrT n t, GPtr (Some (vval final)))))"
  by (simp add: setFieldConfig_loop Value_Elem_def split: sum.splits)

lemmas resolve_eval = getFieldByName_def Let_def Tag_Get_def toSnakeCase_def
        Tag_Lookup_def ToLower_def toLowerChar_def isUpper_def isLower_def isDigit_def
        isExported_def fieldFlag_def

text \<open>
  C9, as stated, fails: the unexported field timeout has the external name timeout and
  cannot be written to, yet binding {"timeout": 5} returns no error and leaves the
  plugin as it was: getFieldByName takes a field matched by its derived name only when
  it is exported, so the entry is skipped.
\<close>

theorem setFieldConfig_skips_unexported:
  "toSnakeCase ''timeout'' (StructField ''timeout'' (Basic ''int'' KInt) [] False) = (''timeout'', True)
   \<and> setFieldConfig (goLibrary (\<lambda>s. Inr 0) (\<lambda>d. []) (\<lambda>d. []))
        [(''timeout'', GIface (Some (Basic ''int'' KInt, GInt 5)))]
        (Some (PtrT [] privatePlugin, GPtr (Some (GStruct [GInt 0, GString []]))))
       = Inr (Some (PtrT [] privatePlugin, GPtr (Some (GStruct [GInt 0, GString []]))))"
  by (simp add: setFieldConfig_single setField_def privatePlugin_def resolve_eval)

text \<open>
  C9, amended. For every key of a bind request: when getFieldByName resolves no field,
  the entry is skipped, the destination is unchanged and no error is returned; when it
  resolves a field that is addressable but read-only (an unexported field, which it
  resolves by its toml tag), the bind returns the error "cannot set" with the key and
  the name of the field's type. An unexported field without a toml tag, other than an
  embedded struct, is not resolved under any key but the empty one.
\<close>

theorem setField_outcomes:
  "(getFieldByName cur k = Inr (ZeroValue, None, path) \<longrightarrow> setField L cfg k cur = Inr cur)
   \<and> (getFieldByName cur k = Inr (Val t v True r, Some ft, path) \<and> r \<noteq> RW \<longrightarrow>
        setField L cfg k cur = Inl (Errorf ''cannot set %s (%s)'' [k, type_Name ft] None))
   \<and> (Tag_Lookup (Tag sf) ''toml'' = None \<and> fieldName \<noteq> [] \<and> Name sf \<noteq> []
        \<and> \<not> isUpper (hd (Name sf)) \<and> \<not> (Kind (Type sf) = KStruct \<and> Anonymous sf) \<longrightarrow>
        getFieldByName_fields (sf # fts) (w # ws) i a r' fieldName
          = getFieldByName_fields fts ws (i + 1) a r' fieldName)"
proof (intro conjI impI)
  assume "getFieldByName cur k = Inr (ZeroValue, None, path)"
  then show "setField L cfg k cur = Inr cur" by (simp add: setField_def)
next
  assume "getFieldByName cur k = Inr (Val t v True r, Some ft, path) \<and> r \<noteq> RW"
  then show "setField L cfg k cur = Inl (Errorf ''cannot set %s (%s)'' [k, type_Name ft] None)"
    by (simp add: setField_def)
next
  assume h: "Tag_Lookup (Tag sf) ''toml'' = None \<and> fieldName \<noteq> [] \<and> Name sf \<noteq> []
        \<and> \<not> isUpper (hd (Name sf)) \<and> \<not> (Kind (Type sf) = KStruct \<and> Anonymous sf)"
  then have ne: "\<not> (Kind (Type sf) = KStruct \<and> Anonymous sf)" by simp
  have g: "Tag_Get (Tag sf) ''toml'' = []" using h by (simp add: Tag_Get_def Tag_Lookup_def)
  have e: "isExported sf = Inr False" using h by (cases "Name sf") (simp_all add: isExported_def)
  show "getFieldByName_fields (sf # fts) (w # ws) i a r' fieldName
          = getFieldByName_fields fts ws (i + 1) a r' fieldName"
    using h g e by (auto simp: notEmbedded_step[OF ne] split: prod.splits simp del: getFieldByName_fields.simps)
qed

text \<open>
  C9, witness: a key that matches nothing, the key of the tag of an unexported field,
  and the derived name of an unexported field.
\<close>

theorem setField_outcomes_witness:
  "setFieldConfig (goLibrary (\<lambda>s. Inr 0) (\<lambda>d. []) (\<lambda>d. []))
        [(''missing'', GIface (Some (Basic ''int'' KInt, GInt 5)))]
        (Some (PtrT [] privatePlugin, GPtr (Some (GStruct [GInt 0, GString []]))))
       = Inr (Some (PtrT [] privatePlugin, GPtr (Some (GStruct [GInt 0, GString []]))))
   \<and> setFieldConfig (goLibrary (\<lambda>s. Inr 0) (\<lambda>d. []) (\<lambda>d. []))
        [(''secret_key'', GIface (Some (stringT, GString ''x'')))]
        (Some (PtrT [] privatePlugin, GPtr (Some (GStruct [GInt 0, GString []]))))
       = Inl (Errorf ''cannot set %s (%s)'' [''secret_key'', ''string''] None)
   \<and> getFieldByName_fields (structFields privatePlugin) [GInt 0, GString []] 0 True RW ''timeout''
       = Inr (ZeroValue, None, [])"
proof -
  let ?cur = "Val privatePlugin (GStruct [GInt 0, GString []]) True RW"
  let ?L = "goLibrary (\<lambda>s. Inr 0) (\<lambda>d. []) (\<lambda>d. [])"
  have a: "getFieldByName ?cur ''missing'' = Inr (ZeroValue, None, [])"
    by (simp add: privatePlugin_def resolve_eval)
  have b: "getFieldByName ?cur ''secret_key''
           = Inr (Val (Basic ''string'' KString) (GString []) True StickyRO,
                  Some (Basic ''string'' KString), [1]) \<and> StickyRO \<noteq> RW"
    by (simp add: privatePlugin_def resolve_eval)
  have c: "Tag_Lookup (Tag (StructField ''timeout'' (Basic ''int'' KInt) [] False)) ''toml'' = None
       \<and> ''timeout'' \<noteq> [] \<and> Name (StructField ''timeout'' (Basic ''int'' KInt) [] False) \<noteq> []
        \<and> \<not> isUpper (hd (Name (StructField ''timeout'' (Basic ''int'' KInt) [] False)))
        \<and> \<not> (Kind (Type (StructField ''timeout'' (Basic ''int'' KInt) [] False)) = KStruct
              \<and> Anonymous (StructField ''timeout'' (Basic ''int'' KInt) [] False))"
    by (simp add: Tag_Lookup_def isUpper_def)
  note A = setField_outcomes[of ?cur "''missing''" "[]" ?L
             "[(''missing'', GIface (Some (Basic ''int'' KInt, GInt 5)))]"]
  note B = setField_outcomes[of ?cur "''secret_key''" "[1]" ?L
             "[(''secret_key'', GIface (Some (stringT, GString ''x'')))]"
             "Basic ''string'' KString" "GString []" StickyRO "Basic ''string'' KString"]
  note C = setField_outcomes[of ?cur "''missing''" "[]" ?L "[]" "Basic ''string'' KString" "GString []"
             StickyRO "Basic ''string'' KString"
             "StructField ''timeout'' (Basic ''int'' KInt) [] False" "''timeout''"
             "[StructField ''secret'' (Basic ''string'' KString) [(''toml'', ''secret_key'')] False]"
             "GInt 0" "[GString []]" 0 True RW]
  have a': "setField ?L [(''missing'', GIface (Some (Basic ''int'' KInt, GInt 5)))] ''missing'' ?cur = Inr ?cur"
    using A a by blast
  have b': "setField ?L [(''secret_key'', GIface (Some (stringT, GString ''x'')))] ''secret_key'' ?cur
       = Inl (Errorf ''cannot set %s (%s)'' [''secret_key'', type_Name (Basic ''string'' KString)] None)"
    using B b by blast
  have c': "getFieldByName_fields (structFields privatePlugin) [GInt 0, GString []] 0 True RW ''timeout''
       = getFieldByName_fields
           [StructField ''secret'' (Basic ''string'' KString) [(''toml'', ''secret_key'')] False]
           [GString []] (0 + 1) True RW ''timeout''"
    using C c by (simp add: privatePlugin_def del: getFieldByName_fields.simps)
  have c'': "getFieldByName_fields
           [StructField ''secret'' (Basic ''string'' KString) [(''toml'', ''secret_key'')] False]
           [GString []] (0 + 1) True RW ''timeout'' = Inr (ZeroValue, None, [])"
    by (simp add: resolve_eval)
  show ?thesis
    using a' b' c' c'' by (simp add: setFieldConfig_single)
qed


end
